theory Spec2Isabelle
  imports Main
begin

section \<open>Extract-variable tweak of clangd (ExtractVariable.cpp)\<close>

text \<open>
  The development embeds the functions of
  \<^verbatim>\<open>clang-tools-extra/clangd/refactor/tweaks/ExtractVariable.cpp\<close>.
  A pointer to an AST object is the address of the object; a null pointer and an empty
  optional are \<open>None\<close>. Where the source dereferences a null pointer or an empty optional,
  or an \<^verbatim>\<open>assert\<close> fails, the run has no defined result: a function in which this can
  happen returns an option, and \<open>None\<close> is that outcome.
\<close>

subsection \<open>Source locations\<close>

type_synonym addr = nat

text \<open>
  Modelled from the spec: \<^verbatim>\<open>SourceLocation\<close>, \<^verbatim>\<open>SourceRange\<close> and \<^verbatim>\<open>FileID\<close> are
  declared in clang/Basic/SourceLocation.h, which is not among the sources. A location
  lies in an entry of the source manager, a file or a macro expansion, at an offset; the
  default-constructed location is invalid. The source-location services tell whether a
  location lies inside a macro expansion and which entry it belongs to.
\<close>

datatype FileID = FileEntry nat | MacroExpansion nat

datatype SourceLocation = InvalidLoc | Loc FileID nat

fun isValid :: "SourceLocation \<Rightarrow> bool" where
  "isValid InvalidLoc = False"
| "isValid (Loc f off) = True"

fun isMacroID :: "SourceLocation \<Rightarrow> bool" where
  "isMacroID (Loc (MacroExpansion m) off) = True"
| "isMacroID l = False"

fun getFileID :: "SourceLocation \<Rightarrow> FileID option" where
  "getFileID InvalidLoc = None"
| "getFileID (Loc f off) = Some f"

fun getFileOffset :: "SourceLocation \<Rightarrow> nat" where
  "getFileOffset InvalidLoc = 0"
| "getFileOffset (Loc f off) = off"

datatype SourceRange = SourceRange (getBegin: SourceLocation) (getEnd: SourceLocation)

definition rangeIsValid :: "SourceRange \<Rightarrow> bool" where
  "rangeIsValid R = (isValid (getBegin R) \<and> isValid (getEnd R))"

text \<open>
  The services of the source manager and of clangd's SourceCode.h that the tweak calls are
  parameters of the model: the order test behind \<^verbatim>\<open>SourceManager::isPointWithin\<close>, the
  mapping of a token range to a half-open file range, and the text of a range.
\<close>

record SourceManager =
  isPointWithin :: "SourceLocation \<Rightarrow> SourceLocation \<Rightarrow> SourceLocation \<Rightarrow> bool"
  toHalfOpenFileRange :: "SourceRange \<Rightarrow> SourceRange option"
  toSourceCode :: "SourceRange \<Rightarrow> string"

subsection \<open>The AST as the tweak reads it\<close>

datatype clang_type =
    VoidTy
  | PseudoObjectTy
  | AutoDeductTy
  | NamedTy string
  | NullabilityTy clang_type

text \<open>A null \<^verbatim>\<open>QualType\<close> is \<open>None\<close>.\<close>

type_synonym QualType = "clang_type option"

text \<open>
  Modelled from the spec: \<^verbatim>\<open>Type::isVoidType\<close> is declared in clang/AST/Type.h, which is
  not among the sources; the static type of the expression is void, below an annotation
  of nullability or not.
\<close>

fun isVoidType :: "clang_type \<Rightarrow> bool" where
  "isVoidType VoidTy = True"
| "isVoidType (NullabilityTy t) = isVoidType t"
| "isVoidType t = False"

datatype BinaryOperatorKind =
    BO_PtrMemD | BO_PtrMemI
  | BO_Mul | BO_Div | BO_Rem
  | BO_Add | BO_Sub
  | BO_Shl | BO_Shr
  | BO_Cmp
  | BO_LT | BO_GT | BO_LE | BO_GE
  | BO_EQ | BO_NE
  | BO_And | BO_Xor | BO_Or
  | BO_LAnd | BO_LOr
  | BO_Assign | BO_MulAssign | BO_DivAssign | BO_RemAssign | BO_AddAssign | BO_SubAssign
  | BO_ShlAssign | BO_ShrAssign | BO_AndAssign | BO_XorAssign | BO_OrAssign
  | BO_Comma

text \<open>
  Declarations. A \<^verbatim>\<open>ParmVarDecl\<close> is a \<^verbatim>\<open>VarDecl\<close>; the fields of a variable are
  \<^verbatim>\<open>isInitCapture()\<close> and \<^verbatim>\<open>getInit()\<close>. For a \<^verbatim>\<open>CXXMethodDecl\<close> the flag is
  \<^verbatim>\<open>getParent()->isLambda()\<close>.
\<close>

datatype DeclClass =
    VarDecl bool "addr option"
  | ParmVarDecl "addr option"
  | CXXMethodDecl bool
  | OtherDecl

record Decl =
  DeclAddr :: addr
  DeclClass :: DeclClass
  DeclBeginLoc :: SourceLocation
  DeclEndLoc :: SourceLocation

text \<open>
  What \<^verbatim>\<open>RecursiveASTVisitor\<close> walks below an expression: a \<^verbatim>\<open>DeclRefExpr\<close> with the
  declaration it names, a \<^verbatim>\<open>LambdaExpr\<close> with its parts, or any other statement with its
  children. For a lambda the parts are: what \<^verbatim>\<open>TraverseLambdaCapture\<close> walks for each
  capture, the trailing requires-clause (at most one), the explicit template parameters,
  whether there is a call operator, its declared return type, its parameters, its
  attributes, and the body.
\<close>

datatype StmtTree =
    DeclRefExprT Decl
  | LambdaExprT (lambdaCaptures: "StmtTree list") (lambdaRequires: "StmtTree list")
      (lambdaTemplateParams: "StmtTree list") (lambdaHasCallOperator: bool)
      (lambdaReturnType: "StmtTree list") (lambdaParams: "StmtTree list")
      (lambdaAttrs: "StmtTree list") (lambdaBody: "StmtTree list")
  | StmtT "StmtTree list"

text \<open>
  Expression classes, with the operands a class gives access to. A
  \<^verbatim>\<open>CXXOperatorCallExpr\<close> has its callee and, when \<^verbatim>\<open>isInfixBinaryOp()\<close> holds, the opcode
  \<^verbatim>\<open>getOverloadedOpcode(getOperator())\<close> with \<^verbatim>\<open>getArg(0)\<close> and \<^verbatim>\<open>getArg(1)\<close>. A
  \<^verbatim>\<open>MemberExpr\<close> says whether its base, implicit casts ignored, is an implicit
  \<^verbatim>\<open>CXXThisExpr\<close>. An \<^verbatim>\<open>ObjCPropertyRefExpr\<close> has \<^verbatim>\<open>isMessagingSetter()\<close>,
  \<^verbatim>\<open>isMessagingGetter()\<close>, \<^verbatim>\<open>isExplicitProperty()\<close>, the type of the explicit
  property and the return type of the implicit getter.
\<close>

datatype ExprClass =
    DeclRefExpr
  | MemberExpr bool
  | BinaryOperator BinaryOperatorKind addr addr
  | CallExpr addr
  | CXXOperatorCallExpr addr "(BinaryOperatorKind \<times> addr \<times> addr) option"
  | LambdaExpr
  | ObjCPropertyRefExpr bool bool bool QualType QualType
  | OtherExpr

record Expr =
  ExprType :: QualType
  ExprLoc :: SourceLocation
  ExprClass :: ExprClass
  Traversal :: StmtTree

text \<open>
  Statement classes. The loops carry \<^verbatim>\<open>getBody()\<close>, an \<^verbatim>\<open>IfStmt\<close> carries
  \<^verbatim>\<open>getThen()\<close> and \<^verbatim>\<open>getElse()\<close>. \<^verbatim>\<open>CaseStmt\<close> and \<^verbatim>\<open>DefaultStmt\<close> are the two
  \<^verbatim>\<open>SwitchCase\<close> classes.
\<close>

datatype StmtClass =
    IsExpr Expr
  | AttributedStmt
  | CompoundStmt
  | CXXForRangeStmt "addr option"
  | DeclStmt
  | DoStmt "addr option"
  | ForStmt "addr option"
  | IfStmt "addr option" "addr option"
  | ReturnStmt
  | WhileStmt "addr option"
  | CaseStmt
  | DefaultStmt
  | OtherStmt

record Stmt =
  StmtAddr :: addr
  StmtClass :: StmtClass
  StmtBeginLoc :: SourceLocation
  StmtEndLoc :: SourceLocation

datatype DynTypedNode = StmtNode Stmt | DeclNode Decl | OtherNode SourceRange

fun get_Stmt :: "DynTypedNode \<Rightarrow> Stmt option" where
  "get_Stmt (StmtNode s) = Some s"
| "get_Stmt n = None"

fun exprOf :: "Stmt \<Rightarrow> Expr option" where
  "exprOf s = (case StmtClass s of IsExpr e \<Rightarrow> Some e | _ \<Rightarrow> None)"

definition isaExpr :: "Stmt \<Rightarrow> bool" where
  "isaExpr s = (exprOf s \<noteq> None)"

text \<open>\<^verbatim>\<open>get<Expr>()\<close>: the statement, when it is an expression, with its expression part.\<close>

fun get_Expr :: "DynTypedNode \<Rightarrow> (Stmt \<times> Expr) option" where
  "get_Expr (StmtNode s) = (case StmtClass s of IsExpr e \<Rightarrow> Some (s, e) | _ \<Rightarrow> None)"
| "get_Expr n = None"

fun get_VarDecl :: "DynTypedNode \<Rightarrow> Decl option" where
  "get_VarDecl (DeclNode d) =
     (case DeclClass d of VarDecl c i \<Rightarrow> Some d | ParmVarDecl i \<Rightarrow> Some d | _ \<Rightarrow> None)"
| "get_VarDecl n = None"

fun get_ParmVarDecl :: "DynTypedNode \<Rightarrow> Decl option" where
  "get_ParmVarDecl (DeclNode d) = (case DeclClass d of ParmVarDecl i \<Rightarrow> Some d | _ \<Rightarrow> None)"
| "get_ParmVarDecl n = None"

fun isaCompoundStmt :: "Stmt \<Rightarrow> bool" where
  "isaCompoundStmt s = (case StmtClass s of CompoundStmt \<Rightarrow> True | _ \<Rightarrow> False)"

fun getSourceRange :: "DynTypedNode \<Rightarrow> SourceRange" where
  "getSourceRange (StmtNode s) = SourceRange (StmtBeginLoc s) (StmtEndLoc s)"
| "getSourceRange (DeclNode d) = SourceRange (DeclBeginLoc d) (DeclEndLoc d)"
| "getSourceRange (OtherNode r) = r"

subsection \<open>The selection tree\<close>

datatype Selection = Unselected | Partial | Complete

text \<open>
  A node of the selection tree owns its children. The parent link of a node is kept
  beside it: a pointer to a node is the node together with the list of its ancestors,
  the parent first and the root last; the list is empty when \<^verbatim>\<open>Parent\<close> is null.
\<close>

datatype Node = Node (ASTNode: DynTypedNode) (Selected: Selection) (Children: "Node list")

subsection \<open>The insertion point\<close>

text \<open>
  \<^verbatim>\<open>ExtractionContext::exprIsValidOutside\<close>, with the referenced declarations as an
  argument: the loop returns at the first declaration that begins and ends within the
  scope.
\<close>

fun exprIsValidOutside :: "SourceManager \<Rightarrow> Decl list \<Rightarrow> Stmt \<Rightarrow> bool" where
  "exprIsValidOutside SM [] Scope = True"
| "exprIsValidOutside SM (ReferencedDecl # rest) Scope =
     (if isValid (DeclBeginLoc ReferencedDecl) \<and>
         isPointWithin SM (DeclBeginLoc ReferencedDecl) (StmtBeginLoc Scope) (StmtEndLoc Scope) \<and>
         isPointWithin SM (DeclEndLoc ReferencedDecl) (StmtBeginLoc Scope) (StmtEndLoc Scope)
      then False
      else exprIsValidOutside SM rest Scope)"

text \<open>
  The lambda \<^verbatim>\<open>CanExtractOutside\<close> of \<^verbatim>\<open>computeInsertionPoint\<close>. It reads the parent of
  its node only where the loop has found the parent to exist, so the parent is an argument.
\<close>

definition CanExtractOutside :: "Node \<Rightarrow> Node \<Rightarrow> bool" where
  "CanExtractOutside InsertionPoint Parent =
     (case get_Stmt (ASTNode InsertionPoint) of
        Some S \<Rightarrow>
          (if isaExpr S then
             (if get_ParmVarDecl (ASTNode Parent) \<noteq> None then False else True)
           else
             (case StmtClass S of
                AttributedStmt \<Rightarrow> True
              | CompoundStmt \<Rightarrow> True
              | CXXForRangeStmt b \<Rightarrow> True
              | DeclStmt \<Rightarrow> True
              | DoStmt b \<Rightarrow> True
              | ForStmt b \<Rightarrow> True
              | IfStmt t e \<Rightarrow> True
              | ReturnStmt \<Rightarrow> True
              | WhileStmt b \<Rightarrow> True
              | _ \<Rightarrow> False))
      | None \<Rightarrow> (if get_VarDecl (ASTNode InsertionPoint) \<noteq> None then True else False))"

text \<open>
  The loop of \<^verbatim>\<open>computeInsertionPoint\<close>, from the current node and its ancestors. It
  ends without a result when the node has no parent or cannot be extracted outside, and
  at the \<^verbatim>\<open>break\<close>; \<^verbatim>\<open>continue\<close> and the end of the body go on with the parent. The
  result is the \<^verbatim>\<open>Stmt\<close> pointer returned, null where the current node is no statement.
\<close>

fun insertionPointLoop :: "SourceManager \<Rightarrow> Decl list \<Rightarrow> Node \<Rightarrow> Node list \<Rightarrow> Stmt option" where
  "insertionPointLoop SM Refs CurNode [] = None"
| "insertionPointLoop SM Refs CurNode (Parent # Ancestors) =
     (if \<not> CanExtractOutside CurNode Parent then None
      else
        (let CurInsertionPoint = get_Stmt (ASTNode CurNode) in
         if (case CurInsertionPoint of Some S \<Rightarrow> \<not> exprIsValidOutside SM Refs S | None \<Rightarrow> False)
         then None
         else
           (case get_Stmt (ASTNode Parent) of
              Some CurParent \<Rightarrow>
                (if isaCompoundStmt CurParent then
                   (if isMacroID (StmtBeginLoc CurParent)
                    then insertionPointLoop SM Refs Parent Ancestors
                    else CurInsertionPoint)
                 else insertionPointLoop SM Refs Parent Ancestors)
            | None \<Rightarrow> insertionPointLoop SM Refs Parent Ancestors)))"


subsection \<open>The referenced declarations\<close>

text \<open>
  \<^verbatim>\<open>FindDeclRefsVisitor::VisitDeclRefExpr\<close>: the visitor's vector is passed through. A
  reference to a method of a lambda class is not recorded.
\<close>

definition VisitDeclRefExpr :: "Decl \<Rightarrow> Decl list \<Rightarrow> Decl list" where
  "VisitDeclRefExpr D ReferencedDecls =
     (case DeclClass D of
        CXXMethodDecl parentIsLambda \<Rightarrow>
          (if parentIsLambda then ReferencedDecls else ReferencedDecls @ [D])
      | _ \<Rightarrow> ReferencedDecls @ [D])"

text \<open>
  The traversal: the visit of a \<^verbatim>\<open>DeclRefExpr\<close>, the override \<^verbatim>\<open>TraverseLambdaExpr\<close>,
  which leaves the body of the lambda out, and the default walk through the children of
  any other statement. No visit returns false, so the walk is never cut short.
\<close>

fun TraverseStmt :: "StmtTree \<Rightarrow> Decl list \<Rightarrow> Decl list" where
  "TraverseStmt (DeclRefExprT D) Refs = VisitDeclRefExpr D Refs"
| "TraverseStmt (LambdaExprT Captures Requires TemplateParams HasCallOperator
                   ReturnType Params Attrs Body) Refs =
     (let R1 = fold TraverseStmt Captures Refs;
          R2 = fold TraverseStmt Requires R1;
          R3 = fold TraverseStmt TemplateParams R2
      in if HasCallOperator
         then fold TraverseStmt Attrs (fold TraverseStmt Params (fold TraverseStmt ReturnType R3))
         else R3)"
| "TraverseStmt (StmtT SubStmts) Refs = fold TraverseStmt SubStmts Refs"

definition computeReferencedDecls :: "Expr \<Rightarrow> Decl list" where
  "computeReferencedDecls E = TraverseStmt (Traversal E) []"

text \<open>
  For comparison with the collector, in the words of the specification: the bare
  references to named entities in an expression, which are all its \<^verbatim>\<open>DeclRefExpr\<close>s, the
  bodies of closures included; the references in the parts of the expression that the
  collector walks; and the references to a member function of a closure type.
\<close>

fun bareReferences :: "StmtTree \<Rightarrow> Decl list" where
  "bareReferences (DeclRefExprT D) = [D]"
| "bareReferences (LambdaExprT Captures Requires TemplateParams HasCallOperator
                     ReturnType Params Attrs Body) =
     concat (map bareReferences
               (Captures @ Requires @ TemplateParams @ ReturnType @ Params @ Attrs @ Body))"
| "bareReferences (StmtT SubStmts) = concat (map bareReferences SubStmts)"

fun walkedReferences :: "StmtTree \<Rightarrow> Decl list" where
  "walkedReferences (DeclRefExprT D) = [D]"
| "walkedReferences (LambdaExprT Captures Requires TemplateParams HasCallOperator
                       ReturnType Params Attrs Body) =
     concat (map walkedReferences
               (Captures @ Requires @ TemplateParams @
                (if HasCallOperator then ReturnType @ Params @ Attrs else [])))"
| "walkedReferences (StmtT SubStmts) = concat (map walkedReferences SubStmts)"

definition isClosureMethod :: "Decl \<Rightarrow> bool" where
  "isClosureMethod D = (DeclClass D = CXXMethodDecl True)"

subsection \<open>The type of the variable\<close>

text \<open>
  The AST context gives the language option \<^verbatim>\<open>CPlusPlus11\<close>; clangd's \<^verbatim>\<open>printType\<close>,
  which renders a type with a name in the declaration context of the expression, is a
  parameter.
\<close>

record ASTContext =
  CPlusPlus11 :: bool
  printType :: "QualType \<Rightarrow> string \<Rightarrow> string"

text \<open>
  \<^verbatim>\<open>computeVariableType\<close>. \<^verbatim>\<open>hasPlaceholderType\<close> casts the type of the expression, which
  must not be null.
\<close>

definition computeVariableType :: "Expr \<Rightarrow> ASTContext \<Rightarrow> QualType option" where
  "computeVariableType E Ctx =
     (if CPlusPlus11 Ctx then Some (Some AutoDeductTy)
      else
        (case ExprType E of
           None \<Rightarrow> None
         | Some T \<Rightarrow>
             (if T = PseudoObjectTy then
                (case ExprClass E of
                   ObjCPropertyRefExpr isMessagingSetter isMessagingGetter isExplicitProperty
                       ExplicitPropertyType ImplicitGetterReturnType \<Rightarrow>
                     (if isMessagingSetter then Some None
                      else if isMessagingGetter then
                        (if isExplicitProperty then Some ExplicitPropertyType
                         else Some ImplicitGetterReturnType)
                      else Some (ExprType E))
                 | _ \<Rightarrow> Some None)
              else Some (ExprType E))))"

text \<open>
  Modelled from the spec: \<^verbatim>\<open>AttributedType::stripOuterNullability\<close> is declared in
  clang/AST/Type.h, which is not among the sources; the outer top-level nullability
  annotation of the type is stripped.
\<close>

fun stripOuterNullability :: "clang_type \<Rightarrow> clang_type" where
  "stripOuterNullability (NullabilityTy T) = T"
| "stripOuterNullability T = T"

subsection \<open>The extraction context\<close>

record ExtractionContext =
  Extractable :: bool
  TheExpr :: "Stmt \<times> Expr"
  VarType :: QualType
  ExprNode :: Node
  ExprNodeAncestors :: "Node list"
  InsertionPoint :: "Stmt option"
  SrcMgr :: SourceManager
  AstCtx :: ASTContext
  ReferencedDecls :: "Decl list"

text \<open>
  \<^verbatim>\<open>ExtractionContext::computeInsertionPoint\<close> starts the loop at the node of the
  expression.
\<close>

definition computeInsertionPoint ::
  "SourceManager \<Rightarrow> Decl list \<Rightarrow> Node \<Rightarrow> Node list \<Rightarrow> Stmt option" where
  "computeInsertionPoint SM Refs N Ancestors = insertionPointLoop SM Refs N Ancestors"

text \<open>
  The constructor, statement by statement. \<^verbatim>\<open>computeReferencedDecls\<close> casts the
  expression of the node, which must not be null.
\<close>

definition newExtractionContext ::
  "Node \<Rightarrow> Node list \<Rightarrow> SourceManager \<Rightarrow> ASTContext \<Rightarrow> ExtractionContext option" where
  "newExtractionContext N Ancestors SM Ctx =
     (case get_Expr (ASTNode N) of
        None \<Rightarrow> None
      | Some E \<Rightarrow>
          (let Refs = computeReferencedDecls (snd E);
               IP = computeInsertionPoint SM Refs N Ancestors;
               Extractable1 = (if IP \<noteq> None then True else False)
           in case computeVariableType (snd E) Ctx of
                None \<Rightarrow> None
              | Some VT \<Rightarrow>
                  Some \<lparr> Extractable = (if VT = None then False else Extractable1),
                         TheExpr = E,
                         VarType = (case VT of None \<Rightarrow> None
                                    | Some T \<Rightarrow> Some (stripOuterNullability T)),
                         ExprNode = N,
                         ExprNodeAncestors = Ancestors,
                         InsertionPoint = IP,
                         SrcMgr = SM,
                         AstCtx = Ctx,
                         ReferencedDecls = Refs \<rparr>))"

subsection \<open>Binary operators in the selection tree\<close>

text \<open>
  Modelled from the spec: \<^verbatim>\<open>SelectionTree::Node::ignoreImplicit\<close> is declared in clangd's
  Selection.h, which is not among the sources. It goes down through wrapping nodes, from
  a node to its only child as long as the child covers the same source range.
\<close>

fun ignoreImplicit :: "Node \<Rightarrow> Node" where
  "ignoreImplicit (Node A S [C]) =
     (if getSourceRange (ASTNode C) = getSourceRange A then ignoreImplicit C
      else Node A S [C])"
| "ignoreImplicit N = N"

text \<open>
  Modelled from the spec: \<^verbatim>\<open>SelectionTree::Node::outerImplicit\<close> is declared in clangd's
  Selection.h, which is not among the sources. It wraps a node in its implicit ancestors,
  going up as long as the parent covers the same source range; the result is the outer
  node with its own ancestors.
\<close>

fun outerImplicit :: "Node \<Rightarrow> Node list \<Rightarrow> Node \<times> Node list" where
  "outerImplicit N [] = (N, [])"
| "outerImplicit N (Parent # Ancestors) =
     (if getSourceRange (ASTNode Parent) = getSourceRange (ASTNode N)
      then outerImplicit Parent Ancestors
      else (N, Parent # Ancestors))"

record ParsedBinaryOperator =
  Kind :: BinaryOperatorKind
  OpExprLoc :: SourceLocation
  SelectedOperands :: "Node list"

text \<open>
  The loop of \<^verbatim>\<open>ParsedBinaryOperator::parse\<close> over the children of an operator call:
  every child must be an expression (the assertion), and the children that are one of the
  two arguments are kept.
\<close>

fun selectArgs :: "addr \<Rightarrow> addr \<Rightarrow> Node list \<Rightarrow> Node list option" where
  "selectArgs Arg0 Arg1 [] = Some []"
| "selectArgs Arg0 Arg1 (Child # rest) =
     (case get_Expr (ASTNode Child) of
        None \<Rightarrow> None
      | Some E \<Rightarrow>
          (case selectArgs Arg0 Arg1 rest of
             None \<Rightarrow> None
           | Some Ops \<Rightarrow>
               Some (if StmtAddr (fst E) = Arg0 \<or> StmtAddr (fst E) = Arg1
                     then Child # Ops else Ops)))"

text \<open>
  \<^verbatim>\<open>ParsedBinaryOperator::parse\<close>: \<open>Some None\<close> where the source returns false,
  \<open>Some (Some Op)\<close> where it returns true with the fields populated.
\<close>

definition parse :: "Node \<Rightarrow> ParsedBinaryOperator option option" where
  "parse N =
     (case get_Expr (ASTNode N) of
        None \<Rightarrow> Some None
      | Some E \<Rightarrow>
          (case ExprClass (snd E) of
             BinaryOperator Opcode LHS RHS \<Rightarrow>
               Some (Some \<lparr> Kind = Opcode, OpExprLoc = ExprLoc (snd E),
                            SelectedOperands = Children N \<rparr>)
           | CXXOperatorCallExpr Callee Infix \<Rightarrow>
               (case Infix of
                  None \<Rightarrow> Some None
                | Some (Opcode, Arg0, Arg1) \<Rightarrow>
                    (case selectArgs Arg0 Arg1 (Children N) of
                       None \<Rightarrow> None
                     | Some Ops \<Rightarrow>
                         Some (Some \<lparr> Kind = Opcode, OpExprLoc = ExprLoc (snd E),
                                      SelectedOperands = Ops \<rparr>)))
           | _ \<Rightarrow> Some None))"

fun associative :: "BinaryOperatorKind \<Rightarrow> bool" where
  "associative BO_Add = True"
| "associative BO_Mul = True"
| "associative BO_And = True"
| "associative BO_Or = True"
| "associative BO_Xor = True"
| "associative BO_LAnd = True"
| "associative BO_LOr = True"
| "associative K = False"

text \<open>
  \<^verbatim>\<open>ParsedBinaryOperator::crossesMacroBoundary\<close>: the loop over the selected operands
  reads the expression of each child, which must not be null.
\<close>

fun crossesLoop :: "FileID option \<Rightarrow> Node list \<Rightarrow> bool option" where
  "crossesLoop F [] = Some False"
| "crossesLoop F (Child # rest) =
     (case get_Expr (ASTNode Child) of
        None \<Rightarrow> None
      | Some E \<Rightarrow>
          (if getFileID (ExprLoc (snd E)) \<noteq> F then Some True else crossesLoop F rest))"

definition crossesMacroBoundary :: "ParsedBinaryOperator \<Rightarrow> bool option" where
  "crossesMacroBoundary Op = crossesLoop (getFileID (OpExprLoc Op)) (SelectedOperands Op)"

text \<open>
  The operands that \<^verbatim>\<open>parse\<close> selects are children of the parsed node, and
  \<^verbatim>\<open>ignoreImplicit\<close> returns the node or one below it: the descent of
  \<^verbatim>\<open>getBinaryOperatorRange\<close> goes to strictly smaller nodes.
\<close>

lemma selectArgs_subset: "selectArgs Arg0 Arg1 Cs = Some Ops \<Longrightarrow> set Ops \<subseteq> set Cs"
  by (induction Cs arbitrary: Ops) (auto split: option.splits if_splits)

lemma parse_operands_children:
  "parse N = Some (Some Op) \<Longrightarrow> set (SelectedOperands Op) \<subseteq> set (Children N)"
  using selectArgs_subset
  by (fastforce simp: parse_def split: option.splits ExprClass.splits)

lemma size_child: "C \<in> set (Children N) \<Longrightarrow> size C < size N"
  by (cases N) (auto simp: less_Suc_eq_le dest: size_list_estimation')

lemma size_ignoreImplicit: "size (ignoreImplicit N) \<le> size N"
  by (induction N rule: ignoreImplicit.induct) auto

lemma size_parsed_operand:
  "parse (ignoreImplicit N) = Some (Some Op) \<Longrightarrow> X \<in> set (SelectedOperands Op) \<Longrightarrow>
   size X < size N"
  using parse_operands_children [of "ignoreImplicit N" Op] size_child [of X "ignoreImplicit N"]
    size_ignoreImplicit [of N]
  by auto

text \<open>
  The \<^verbatim>\<open>while\<close> loop of \<^verbatim>\<open>getBinaryOperatorRange\<close>, which pushes \<^verbatim>\<open>Start\<close> down the left
  edge: the result is \<^verbatim>\<open>Start\<close> when the loop is left. The loop is left when the node is
  no operator of the outer kind or crosses a macro boundary, and at the \<^verbatim>\<open>break\<close> when
  only one operand is selected; the assertion fails when no operand is.
\<close>

function pushDownStart :: "BinaryOperatorKind \<Rightarrow> Node \<Rightarrow> Node option" where
  "pushDownStart OuterOp Start =
     (case parse (ignoreImplicit Start) of
        None \<Rightarrow> None
      | Some None \<Rightarrow> Some Start
      | Some (Some Op) \<Rightarrow>
          (if Kind Op \<noteq> OuterOp then Some Start
           else
             (case crossesMacroBoundary Op of
                None \<Rightarrow> None
              | Some True \<Rightarrow> Some Start
              | Some False \<Rightarrow>
                  (case SelectedOperands Op of
                     [] \<Rightarrow> None
                   | [RHS] \<Rightarrow> Some RHS
                   | LHS # R # Rs \<Rightarrow> pushDownStart OuterOp LHS))))"
  by pat_completeness auto
termination
  by (relation "measure (\<lambda>(OuterOp, Start). size Start)")
     (auto intro: size_parsed_operand)

declare pushDownStart.simps [simp del]

text \<open>
  For comparison with the normalizer, in the words of the specification. A node is a
  binary operator when it is a built-in operator or an operator-overload call with
  exactly two operand positions; its selected operands are its selected children, for a
  call those that are one of the two arguments and not the callee. It straddles a macro
  boundary when one of its selected operands lies in another file or macro expansion than
  the operator itself.
\<close>

definition isExprNode :: "Node \<Rightarrow> bool" where
  "isExprNode C = (get_Expr (ASTNode C) \<noteq> None)"

definition exprFile :: "Node \<Rightarrow> FileID option" where
  "exprFile C = (case get_Expr (ASTNode C) of Some E \<Rightarrow> getFileID (ExprLoc (snd E)) | None \<Rightarrow> None)"

definition isArgument :: "addr \<Rightarrow> addr \<Rightarrow> Node \<Rightarrow> bool" where
  "isArgument Arg0 Arg1 C =
     (case get_Expr (ASTNode C) of
        Some E \<Rightarrow> StmtAddr (fst E) = Arg0 \<or> StmtAddr (fst E) = Arg1
      | None \<Rightarrow> False)"

definition operatorKind :: "Node \<Rightarrow> BinaryOperatorKind option" where
  "operatorKind N =
     (case get_Expr (ASTNode N) of
        None \<Rightarrow> None
      | Some E \<Rightarrow>
          (case ExprClass (snd E) of
             BinaryOperator Opcode LHS RHS \<Rightarrow> Some Opcode
           | CXXOperatorCallExpr Callee Infix \<Rightarrow> map_option fst Infix
           | _ \<Rightarrow> None))"

definition operandsOf :: "Node \<Rightarrow> Node list" where
  "operandsOf N =
     (case get_Expr (ASTNode N) of
        None \<Rightarrow> []
      | Some E \<Rightarrow>
          (case ExprClass (snd E) of
             BinaryOperator Opcode LHS RHS \<Rightarrow> Children N
           | CXXOperatorCallExpr Callee Infix \<Rightarrow>
               (case Infix of
                  None \<Rightarrow> []
                | Some (Opcode, Arg0, Arg1) \<Rightarrow> filter (isArgument Arg0 Arg1) (Children N))
           | _ \<Rightarrow> []))"

definition straddlesMacro :: "Node \<Rightarrow> bool" where
  "straddlesMacro N = list_ex (\<lambda>C. exprFile C \<noteq> exprFile N) (operandsOf N)"

text \<open>
  The left edge that the loop walks, in the words of the specification. A node is a link
  of the chain when, below its implicit wrappers, it is an operator of the outer kind that
  does not straddle a macro boundary; the chain stops at a node that, below its implicit
  wrappers, is no binary operator, or is one of another kind, or straddles a macro
  boundary. In both, the children of an operator are expressions. The left edge is a
  chain of nodes: every node but the last is a link with two or more selected operands,
  the first of which is the next node of the chain; the last is either a link with one
  selected operand only, its right one, which is then the start, or a node at which the
  chain stops, which is then itself the start.
\<close>

definition chainLink :: "BinaryOperatorKind \<Rightarrow> Node \<Rightarrow> bool" where
  "chainLink OuterOp X =
     (operatorKind (ignoreImplicit X) = Some OuterOp \<and>
      list_all isExprNode (Children (ignoreImplicit X)) \<and>
      \<not> straddlesMacro (ignoreImplicit X))"

definition chainStop :: "BinaryOperatorKind \<Rightarrow> Node \<Rightarrow> bool" where
  "chainStop OuterOp X =
     (case operatorKind (ignoreImplicit X) of
        None \<Rightarrow> True
      | Some Opcode \<Rightarrow>
          list_all isExprNode (Children (ignoreImplicit X)) \<and>
          (Opcode \<noteq> OuterOp \<or> straddlesMacro (ignoreImplicit X)))"

fun leftEdge :: "BinaryOperatorKind \<Rightarrow> Node list \<Rightarrow> Node \<Rightarrow> bool" where
  "leftEdge OuterOp [] Start = False"
| "leftEdge OuterOp [X] Start =
     ((chainLink OuterOp X \<and> operandsOf (ignoreImplicit X) = [Start]) \<or>
      (chainStop OuterOp X \<and> Start = X))"
| "leftEdge OuterOp (X # Y # Zs) Start =
     (chainLink OuterOp X \<and>
      (case operandsOf (ignoreImplicit X) of L # R # Rs \<Rightarrow> L = Y | _ \<Rightarrow> False) \<and>
      leftEdge OuterOp (Y # Zs) Start)"

text \<open>
  \<^verbatim>\<open>getBinaryOperatorRange\<close>. The conditions of the first test are evaluated from left to
  right. The default-constructed range is invalid. Both results of
  \<^verbatim>\<open>toHalfOpenFileRange\<close> are dereferenced.
\<close>

definition getBinaryOperatorRange :: "Node \<Rightarrow> SourceManager \<Rightarrow> SourceRange option" where
  "getBinaryOperatorRange N SM =
     (case parse (ignoreImplicit N) of
        None \<Rightarrow> None
      | Some None \<Rightarrow> Some (SourceRange InvalidLoc InvalidLoc)
      | Some (Some Op) \<Rightarrow>
          (if \<not> associative (Kind Op) then Some (SourceRange InvalidLoc InvalidLoc)
           else
             (case crossesMacroBoundary Op of
                None \<Rightarrow> None
              | Some True \<Rightarrow> Some (SourceRange InvalidLoc InvalidLoc)
              | Some False \<Rightarrow>
                  (case SelectedOperands Op of
                     [LHS, RHS] \<Rightarrow>
                       (case pushDownStart (Kind Op) LHS of
                          None \<Rightarrow> None
                        | Some Start \<Rightarrow>
                            (case toHalfOpenFileRange SM (getSourceRange (ASTNode Start)) of
                               None \<Rightarrow> None
                             | Some StartRange \<Rightarrow>
                                 (case toHalfOpenFileRange SM (getSourceRange (ASTNode RHS)) of
                                    None \<Rightarrow> None
                                  | Some EndRange \<Rightarrow>
                                      Some (SourceRange (getBegin StartRange)
                                              (getEnd EndRange)))))
                   | _ \<Rightarrow> Some (SourceRange InvalidLoc InvalidLoc)))))"

text \<open>\<^verbatim>\<open>ExtractionContext::getExtractionChars\<close>.\<close>

definition getExtractionChars :: "ExtractionContext \<Rightarrow> SourceRange option" where
  "getExtractionChars T =
     (case getBinaryOperatorRange (ExprNode T) (SrcMgr T) of
        None \<Rightarrow> None
      | Some BinaryOperatorRange \<Rightarrow>
          (if rangeIsValid BinaryOperatorRange then Some BinaryOperatorRange
           else toHalfOpenFileRange (SrcMgr T)
                  (SourceRange (StmtBeginLoc (fst (TheExpr T))) (StmtEndLoc (fst (TheExpr T))))))"

subsection \<open>The edits\<close>

text \<open>
  Modelled from the spec: \<^verbatim>\<open>tooling::Replacement\<close> is declared in
  clang/Tooling/Core/Replacement.h, which is not among the sources. An edit is a start
  offset, a length and a replacement text, anchored to one buffer, the buffer of the
  location it is built from.
\<close>

record Replacement =
  FilePath :: "FileID option"
  Offset :: nat
  Length :: nat
  ReplacementText :: string


text \<open>
  Modelled from the spec: \<^verbatim>\<open>tooling::Replacements::add\<close> is declared in
  clang/Tooling/Core/Replacement.h, which is not among the sources. Adding an edit to an
  edit set reports a conflict when the edit is anchored to another buffer than the edits
  of the set or when its byte range overlaps the byte range of one of them, and extends
  the set otherwise. Two byte ranges overlap when each begins before the other ends.
\<close>

definition overlapsWith :: "Replacement \<Rightarrow> Replacement \<Rightarrow> bool" where
  "overlapsWith R1 R2 =
     (Offset R1 + Length R1 > Offset R2 \<and> Offset R1 < Offset R2 + Length R2)"

datatype ReplacementError = wrong_file_path | overlap_conflict

definition add :: "Replacement list \<Rightarrow> Replacement \<Rightarrow> ReplacementError + Replacement list" where
  "add Replaces R =
     (if list_ex (\<lambda>R2. FilePath R \<noteq> FilePath R2) Replaces then Inl wrong_file_path
      else if list_ex (\<lambda>R2. overlapsWith R R2) Replaces then Inl overlap_conflict
      else Inr (Replaces @ [R]))"






subsection \<open>Choosing the expression\<close>

text \<open>
  \<^verbatim>\<open>getCallee()\<close> of a \<^verbatim>\<open>CallExpr\<close>; a \<^verbatim>\<open>CXXOperatorCallExpr\<close> is a \<^verbatim>\<open>CallExpr\<close>.
\<close>

fun getCallee :: "ExprClass \<Rightarrow> addr option" where
  "getCallee (CallExpr Callee) = Some Callee"
| "getCallee (CXXOperatorCallExpr Callee Infix) = Some Callee"
| "getCallee C = None"

text \<open>\<^verbatim>\<open>getCallExpr\<close>: the result is the call node with its own ancestors.\<close>

definition getCallExpr :: "Node \<Rightarrow> Node list \<Rightarrow> (Node \<times> Node list) option" where
  "getCallExpr DeclRef Ancestors =
     (let MaybeCallee = fst (outerImplicit DeclRef Ancestors) in
      case snd (outerImplicit DeclRef Ancestors) of
        [] \<Rightarrow> None
      | MaybeCall # CallAncestors \<Rightarrow>
          (case get_Expr (ASTNode MaybeCall) of
             None \<Rightarrow> None
           | Some CE \<Rightarrow>
               (case getCallee (ExprClass (snd CE)) of
                  None \<Rightarrow> None
                | Some Callee \<Rightarrow>
                    (if Some Callee \<noteq>
                          map_option (\<lambda>E. StmtAddr (fst E)) (get_Expr (ASTNode MaybeCallee))
                     then None
                     else Some (MaybeCall, CallAncestors)))))"

text \<open>\<^verbatim>\<open>childExprIsDisallowedStmt\<close>, in the order of its tests.\<close>

definition childExprIsDisallowedStmt :: "Stmt option \<Rightarrow> (Stmt \<times> Expr) option \<Rightarrow> bool" where
  "childExprIsDisallowedStmt Outer Inner =
     (case Outer of
        None \<Rightarrow> False
      | Some OuterStmt \<Rightarrow>
          (case Inner of
             None \<Rightarrow> False
           | Some InnerExpr \<Rightarrow>
               (case StmtClass OuterStmt of
                  CaseStmt \<Rightarrow> True
                | DefaultStmt \<Rightarrow> True
                | WhileStmt Body \<Rightarrow> Some (StmtAddr (fst InnerExpr)) = Body
                | DoStmt Body \<Rightarrow> Some (StmtAddr (fst InnerExpr)) = Body
                | ForStmt Body \<Rightarrow> Some (StmtAddr (fst InnerExpr)) = Body
                | CXXForRangeStmt Body \<Rightarrow> Some (StmtAddr (fst InnerExpr)) = Body
                | IfStmt Then Else \<Rightarrow>
                    Some (StmtAddr (fst InnerExpr)) = Then \<or>
                    Some (StmtAddr (fst InnerExpr)) = Else
                | _ \<Rightarrow> False)))"

text \<open>
  Modelled from the spec: \<^verbatim>\<open>BinaryOperator::isAssignmentOp\<close> is declared in
  clang/AST/Expr.h, which is not among the sources. The applications of an assignment
  operator are those with an opcode from \<^verbatim>\<open>BO_Assign\<close> to \<^verbatim>\<open>BO_OrAssign\<close>.
\<close>

fun isAssignmentOp :: "BinaryOperatorKind \<Rightarrow> bool" where
  "isAssignmentOp BO_Assign = True"
| "isAssignmentOp BO_MulAssign = True"
| "isAssignmentOp BO_DivAssign = True"
| "isAssignmentOp BO_RemAssign = True"
| "isAssignmentOp BO_AddAssign = True"
| "isAssignmentOp BO_SubAssign = True"
| "isAssignmentOp BO_ShlAssign = True"
| "isAssignmentOp BO_ShrAssign = True"
| "isAssignmentOp BO_AndAssign = True"
| "isAssignmentOp BO_XorAssign = True"
| "isAssignmentOp BO_OrAssign = True"
| "isAssignmentOp K = False"

text \<open>The recursive lambda \<^verbatim>\<open>IsFullySelected\<close> of \<^verbatim>\<open>eligibleForExtraction\<close>.\<close>

fun IsFullySelected :: "Node \<Rightarrow> bool" where
  "IsFullySelected (Node A S Cs) =
     (if rangeIsValid (getSourceRange A) \<and> S \<noteq> Complete then False
      else list_all IsFullySelected Cs)"

text \<open>
  The lambda \<^verbatim>\<open>ExprIsFullySelectedTargetNode\<close>, with what it captures as arguments: the
  node, whether the node is a binary operator, and the expression of the outer implicit
  node. Its argument is a pointer to an expression.
\<close>

definition ExprIsFullySelectedTargetNode ::
  "Node \<Rightarrow> bool \<Rightarrow> (Stmt \<times> Expr) option \<Rightarrow> addr option \<Rightarrow> bool" where
  "ExprIsFullySelectedTargetNode N IsBinOp OuterExpr E =
     (if E \<noteq> map_option (\<lambda>X. StmtAddr (fst X)) OuterExpr then False
      else if \<not> IsBinOp then True
      else IsFullySelected N)"

text \<open>\<^verbatim>\<open>get<BinaryOperator>()\<close> of a node: the opcode and the right-hand side.\<close>

definition get_BinaryOperator :: "DynTypedNode \<Rightarrow> (BinaryOperatorKind \<times> addr) option" where
  "get_BinaryOperator A =
     (case get_Expr A of
        None \<Rightarrow> None
      | Some E \<Rightarrow>
          (case ExprClass (snd E) of
             BinaryOperator Opcode LHS RHS \<Rightarrow> Some (Opcode, RHS)
           | _ \<Rightarrow> None))"

text \<open>\<^verbatim>\<open>eligibleForExtraction\<close>, test by test.\<close>

definition eligibleForExtraction :: "Node \<Rightarrow> Node list \<Rightarrow> bool option" where
  "eligibleForExtraction N Ancestors =
     (case get_Expr (ASTNode N) of
        None \<Rightarrow> Some False
      | Some E \<Rightarrow>
          (if (case ExprType (snd E) of None \<Rightarrow> True | Some ExprTy \<Rightarrow> isVoidType ExprTy)
           then Some False
           else if ExprClass (snd E) = DeclRefExpr then Some False
           else if (case ExprClass (snd E) of MemberExpr ImplicitThis \<Rightarrow> ImplicitThis
                    | _ \<Rightarrow> False)
           then Some False
           else
             (case parse N of
                None \<Rightarrow> None
              | Some BinOp \<Rightarrow>
                  (let IsBinOp = (BinOp \<noteq> None) in
                   if (case BinOp of Some Op \<Rightarrow> isAssignmentOp (Kind Op) | None \<Rightarrow> False)
                   then Some False
                   else
                     (let OuterImplicit = fst (outerImplicit N Ancestors) in
                      case snd (outerImplicit N Ancestors) of
                        [] \<Rightarrow> Some False
                      | Parent # ParentAncestors \<Rightarrow>
                          (if childExprIsDisallowedStmt (get_Stmt (ASTNode Parent))
                                (get_Expr (ASTNode OuterImplicit))
                           then Some False
                           else if (case get_BinaryOperator (ASTNode Parent) of
                                      Some BO \<Rightarrow>
                                        isAssignmentOp (fst BO) \<and>
                                        ExprIsFullySelectedTargetNode N IsBinOp
                                          (get_Expr (ASTNode OuterImplicit)) (Some (snd BO))
                                    | None \<Rightarrow> False)
                           then Some False
                           else if ExprClass (snd E) = LambdaExpr
                           then Some (Selected N = Complete)
                           else if (case get_VarDecl (ASTNode Parent) of
                                      Some D \<Rightarrow>
                                        (case DeclClass D of
                                           VarDecl IsInitCapture Init \<Rightarrow>
                                             \<not> IsInitCapture \<and>
                                             ExprIsFullySelectedTargetNode N IsBinOp
                                               (get_Expr (ASTNode OuterImplicit)) Init
                                         | ParmVarDecl Init \<Rightarrow>
                                             ExprIsFullySelectedTargetNode N IsBinOp
                                               (get_Expr (ASTNode OuterImplicit)) Init
                                         | _ \<Rightarrow> False)
                                    | None \<Rightarrow> False)
                           then Some False
                           else Some True))))))"

text \<open>
  \<^verbatim>\<open>computeExtractedExpr\<close>: \<open>Some None\<close> where the source returns a null pointer. The
  argument is the common ancestor of the selection, a pointer to a node.
\<close>

definition computeExtractedExpr ::
  "(Node \<times> Node list) option \<Rightarrow> (Node \<times> Node list) option option" where
  "computeExtractedExpr NPtr =
     (case NPtr of
        None \<Rightarrow> Some None
      | Some N \<Rightarrow>
          (case get_Expr (ASTNode (fst N)) of
             None \<Rightarrow> Some None
           | Some SelectedExpr \<Rightarrow>
               (let TargetNode =
                      (if ExprClass (snd SelectedExpr) = DeclRefExpr \<or>
                          (case ExprClass (snd SelectedExpr) of MemberExpr ImplicitThis \<Rightarrow> True
                           | _ \<Rightarrow> False)
                       then (case getCallExpr (fst N) (snd N) of
                               Some Call \<Rightarrow> Call
                             | None \<Rightarrow> N)
                       else N)
                in if (case ExprClass (snd SelectedExpr) of
                         BinaryOperator Opcode LHS RHS \<Rightarrow> Opcode = BO_Assign
                       | _ \<Rightarrow> False)
                   then Some None
                   else
                     (case eligibleForExtraction (fst TargetNode) (snd TargetNode) of
                        None \<Rightarrow> None
                      | Some Eligible \<Rightarrow>
                          (if \<not> Eligible then Some None else Some (Some TargetNode))))))"

text \<open>
  The inputs of the tweak: the bounds of the selection, the source manager and the context
  of the parsed AST, and the common ancestor of the selection tree.
\<close>

record TweakSelection =
  SelectionBegin :: nat
  SelectionEnd :: nat
  getSourceManager :: SourceManager
  getASTContext :: ASTContext
  commonAncestor :: "(Node \<times> Node list) option"

text \<open>
  \<^verbatim>\<open>ExtractVariable::prepare\<close>. The member \<^verbatim>\<open>Target\<close> is the state of the tweak: the call
  takes it and returns it with the verdict.
\<close>

definition prepare ::
  "TweakSelection \<Rightarrow> ExtractionContext option \<Rightarrow> (bool \<times> ExtractionContext option) option" where
  "prepare Inputs Target =
     (if SelectionBegin Inputs = SelectionEnd Inputs then Some (False, Target)
      else
        (case computeExtractedExpr (commonAncestor Inputs) of
           None \<Rightarrow> None
         | Some None \<Rightarrow>
             Some ((case Target of Some T \<Rightarrow> Extractable T | None \<Rightarrow> False), Target)
         | Some (Some N) \<Rightarrow>
             (case newExtractionContext (fst N) (snd N) (getSourceManager Inputs)
                     (getASTContext Inputs) of
                None \<Rightarrow> None
              | Some T \<Rightarrow> Some (Extractable T, Some T))))"

section \<open>Concrete inputs\<close>

text \<open>
  A source manager for the examples: one file, every token of which is one character
  long, so that the half-open file range of a token range ends one character after the
  begin of its last token. A location is within two others when it is one of them or lies
  between them in the file.
\<close>

fun locBefore :: "SourceLocation \<Rightarrow> SourceLocation \<Rightarrow> bool" where
  "locBefore (Loc F X) (Loc G Y) = (F = G \<and> X < Y)"
| "locBefore L M = False"

definition exampleSM :: "string \<Rightarrow> SourceManager" where
  "exampleSM Buffer =
     \<lparr> isPointWithin = (\<lambda>L S E. L = S \<or> L = E \<or> (locBefore S L \<and> locBefore L E)),
       toHalfOpenFileRange =
         (\<lambda>R. case getEnd R of
                 InvalidLoc \<Rightarrow> None
               | Loc F Off \<Rightarrow>
                   (if isValid (getBegin R)
                    then Some (SourceRange (getBegin R) (Loc F (Off + 1)))
                    else None)),
       toSourceCode =
         (\<lambda>R. take (getFileOffset (getEnd R) - getFileOffset (getBegin R))
                 (drop (getFileOffset (getBegin R)) Buffer)) \<rparr>"

definition exampleCtx :: ASTContext where
  "exampleCtx =
     \<lparr> CPlusPlus11 = True,
       printType =
         (\<lambda>T Name. (case T of Some AutoDeductTy \<Rightarrow> ''auto'' | _ \<Rightarrow> ''int'') @ '' '' @ Name) \<rparr>"

definition fileLoc :: "nat \<Rightarrow> SourceLocation" where
  "fileLoc Off = Loc (FileEntry 0) Off"

text \<open>
  An expression of type int: its address, the offsets of its first and last token, the
  offset of its expression location, its class, and what the visitor walks below it.
\<close>

definition exprSyntax :: "nat \<Rightarrow> ExprClass \<Rightarrow> StmtTree \<Rightarrow> Expr" where
  "exprSyntax L C T =
     \<lparr> ExprType = Some (NamedTy ''int''), ExprLoc = fileLoc L, ExprClass = C, Traversal = T \<rparr>"

definition intExpr :: "addr \<Rightarrow> nat \<Rightarrow> nat \<Rightarrow> nat \<Rightarrow> ExprClass \<Rightarrow> StmtTree \<Rightarrow> Stmt" where
  "intExpr A B E L C T =
     \<lparr> StmtAddr = A, StmtClass = IsExpr (exprSyntax L C T),
       StmtBeginLoc = fileLoc B, StmtEndLoc = fileLoc E \<rparr>"

definition plainStmt :: "addr \<Rightarrow> nat \<Rightarrow> nat \<Rightarrow> StmtClass \<Rightarrow> Stmt" where
  "plainStmt A B E C =
     \<lparr> StmtAddr = A, StmtClass = C, StmtBeginLoc = fileLoc B, StmtEndLoc = fileLoc E \<rparr>"

definition plainDecl :: "addr \<Rightarrow> nat \<Rightarrow> nat \<Rightarrow> DeclClass \<Rightarrow> Decl" where
  "plainDecl A B E C =
     \<lparr> DeclAddr = A, DeclClass = C, DeclBeginLoc = fileLoc B, DeclEndLoc = fileLoc E \<rparr>"

lemmas base_defs =
  exampleSM_def exampleCtx_def fileLoc_def exprSyntax_def intExpr_def plainStmt_def
  plainDecl_def

subsection \<open>A variable of the same block\<close>

text \<open>
  The body \<^verbatim>\<open>{ int y = 1; f(y + 1); }\<close> of a function, with \<^verbatim>\<open>y + 1\<close> selected. The
  block spans the offsets 0 to 23, the declaration of \<^verbatim>\<open>y\<close> 2 to 10, the call 13 to 20
  and the sum 15 to 19, with its operator at 17.
\<close>

definition scopeBuffer :: string where
  "scopeBuffer = ''{ int y = 1; f(y + 1); }''"

definition scopeY :: Decl where
  "scopeY = plainDecl 10 2 10 (VarDecl False (Some 11))"

definition scopeSumSyntax :: StmtTree where
  "scopeSumSyntax = StmtT [StmtT [DeclRefExprT scopeY], StmtT []]"

definition scopeSum :: Stmt where
  "scopeSum = intExpr 3 15 19 17 (BinaryOperator BO_Add 4 6) scopeSumSyntax"

definition scopeSumNode :: Node where
  "scopeSumNode =
     Node (StmtNode scopeSum) Complete
       [Node (StmtNode (intExpr 4 15 15 15 OtherExpr (StmtT [DeclRefExprT scopeY]))) Complete
          [Node (StmtNode (intExpr 5 15 15 15 DeclRefExpr (DeclRefExprT scopeY))) Complete []],
        Node (StmtNode (intExpr 6 19 19 19 OtherExpr (StmtT []))) Complete []]"

definition scopeCall :: Stmt where
  "scopeCall = intExpr 2 13 20 13 (CallExpr 7) (StmtT [StmtT [], scopeSumSyntax])"

definition scopeBlock :: Stmt where
  "scopeBlock = plainStmt 1 0 23 CompoundStmt"

definition scopeAncestors :: "Node list" where
  "scopeAncestors =
     [Node (StmtNode scopeCall) Unselected [scopeSumNode],
      Node (StmtNode scopeBlock) Unselected [],
      Node (DeclNode (plainDecl 30 0 23 OtherDecl)) Unselected []]"

definition scopeSelection :: TweakSelection where
  "scopeSelection =
     \<lparr> SelectionBegin = 15, SelectionEnd = 20,
       getSourceManager = exampleSM scopeBuffer, getASTContext = exampleCtx,
       commonAncestor = Some (scopeSumNode, scopeAncestors) \<rparr>"

lemmas scope_defs =
  scopeBuffer_def scopeY_def scopeSumSyntax_def scopeSum_def scopeSumNode_def scopeCall_def
  scopeBlock_def scopeAncestors_def

subsection \<open>A statement that begins in a macro expansion\<close>







subsection \<open>A variable of a loop\<close>









subsection \<open>The default argument of a parameter\<close>

text \<open>
  The body \<^verbatim>\<open>{ auto l = [](int r = 1 + 2) { return r; }; }\<close> of a function, with
  \<^verbatim>\<open>1 + 2\<close> selected. The sum spans the offsets 22 to 26, with its operator at 24, the
  parameter 14 to 26, the lambda 11 to 41, the variable 2 to 41, its declaration statement
  2 to 42 and the block 0 to 44.
\<close>

definition parmBuffer :: string where
  "parmBuffer = ''{ auto l = [](int r = 1 + 2) { return r; }; }''"

definition parmSumNode :: Node where
  "parmSumNode =
     Node (StmtNode (intExpr 3 22 26 24 (BinaryOperator BO_Add 4 5) (StmtT [StmtT [], StmtT []])))
       Complete
       [Node (StmtNode (intExpr 4 22 22 22 OtherExpr (StmtT []))) Complete [],
        Node (StmtNode (intExpr 5 26 26 26 OtherExpr (StmtT []))) Complete []]"

definition parmR :: Decl where
  "parmR = plainDecl 6 14 26 (ParmVarDecl (Some 3))"

definition parmOuter :: "Node list" where
  "parmOuter =
     [Node (StmtNode (intExpr 7 11 41 11 LambdaExpr
         (LambdaExprT [] [] [] True [] [StmtT [StmtT [], StmtT []]] []
            [StmtT [StmtT [DeclRefExprT parmR]]]))) Unselected [],
      Node (DeclNode (plainDecl 8 2 41 (VarDecl False (Some 7)))) Unselected [],
      Node (StmtNode (plainStmt 9 2 42 DeclStmt)) Unselected [],
      Node (StmtNode (plainStmt 1 0 44 CompoundStmt)) Unselected [],
      Node (DeclNode (plainDecl 30 0 44 OtherDecl)) Unselected []]"

lemmas parm_defs =
  parmBuffer_def parmSumNode_def parmR_def parmOuter_def

subsection \<open>A block that begins in a macro expansion\<close>

text \<open>
  \<^verbatim>\<open>{ M f(1 + 2); } }\<close> where the macro \<^verbatim>\<open>M\<close> expands to an opening brace, with
  \<^verbatim>\<open>1 + 2\<close> selected. The inner block begins in the expansion of the macro and ends at
  the offset 14, the outer block spans 0 to 16, the call 4 to 11 and the sum 6 to 10,
  with its operator at 8.
\<close>

definition macroBuffer :: string where
  "macroBuffer = ''{ M f(1 + 2); } }''"

definition macroSumNode :: Node where
  "macroSumNode =
     Node (StmtNode (intExpr 3 6 10 8 (BinaryOperator BO_Add 4 5) (StmtT [StmtT [], StmtT []])))
       Complete
       [Node (StmtNode (intExpr 4 6 6 6 OtherExpr (StmtT []))) Complete [],
        Node (StmtNode (intExpr 5 10 10 10 OtherExpr (StmtT []))) Complete []]"

definition macroCallNode :: Node where
  "macroCallNode =
     Node (StmtNode (intExpr 2 4 11 4 (CallExpr 7) (StmtT [StmtT [], StmtT [StmtT [], StmtT []]])))
       Unselected [macroSumNode]"

definition macroInner :: Stmt where
  "macroInner =
     \<lparr> StmtAddr = 8, StmtClass = CompoundStmt,
       StmtBeginLoc = Loc (MacroExpansion 1) 0, StmtEndLoc = fileLoc 14 \<rparr>"

definition macroOuter :: "Node list" where
  "macroOuter =
     [Node (StmtNode (plainStmt 1 0 16 CompoundStmt)) Unselected [],
      Node (DeclNode (plainDecl 30 0 16 OtherDecl)) Unselected []]"

lemmas macro_defs =
  macroBuffer_def macroSumNode_def macroCallNode_def macroInner_def macroOuter_def

subsection \<open>Chains of one associative operator\<close>

text \<open>
  The body \<^verbatim>\<open>{ f(a + b + c + d); }\<close> of a function, with \<^verbatim>\<open>b + c\<close> selected. The
  operands are at the offsets 4, 8, 12 and 16, the operators at 6, 10 and 14; the call
  spans 2 to 17 and the block 0 to 20. The common ancestor of the selection is the
  operator of \<^verbatim>\<open>a + b + c\<close>, which spans 4 to 12; its selected children are the
  operator of \<^verbatim>\<open>a + b\<close>, which spans 4 to 8 and has the implicit cast of \<^verbatim>\<open>b\<close> as
  its only selected child, and the implicit cast of \<^verbatim>\<open>c\<close>. The variables are declared
  in another file.
\<close>

definition chainBuffer :: string where
  "chainBuffer = ''{ f(a + b + c + d); }''"

definition chainDecl :: "addr \<Rightarrow> Decl" where
  "chainDecl A =
     \<lparr> DeclAddr = A, DeclClass = VarDecl False None,
       DeclBeginLoc = Loc (FileEntry 1) (10 * A), DeclEndLoc = Loc (FileEntry 1) (10 * A + 4) \<rparr>"

definition chainOperand :: "addr \<Rightarrow> nat \<Rightarrow> Node" where
  "chainOperand A Off =
     Node (StmtNode (intExpr A Off Off Off OtherExpr (StmtT [DeclRefExprT (chainDecl A)]))) Complete
       [Node (StmtNode (intExpr (A + 1) Off Off Off DeclRefExpr (DeclRefExprT (chainDecl A))))
          Complete []]"

definition chainABSyntax :: StmtTree where
  "chainABSyntax = StmtT [StmtT [DeclRefExprT (chainDecl 9)], StmtT [DeclRefExprT (chainDecl 11)]]"

definition chainAB :: Node where
  "chainAB =
     Node (StmtNode (intExpr 15 4 8 6 (BinaryOperator BO_Add 9 11) chainABSyntax))
       Unselected [chainOperand 11 8]"

definition chainABCSyntax :: StmtTree where
  "chainABCSyntax = StmtT [chainABSyntax, StmtT [DeclRefExprT (chainDecl 13)]]"

definition chainABC :: Node where
  "chainABC =
     Node (StmtNode (intExpr 17 4 12 10 (BinaryOperator BO_Add 15 13) chainABCSyntax))
       Complete [chainAB, chainOperand 13 12]"

definition chainABCDSyntax :: StmtTree where
  "chainABCDSyntax = StmtT [chainABCSyntax, StmtT [DeclRefExprT (chainDecl 21)]]"

definition chainAncestors :: "Node list" where
  "chainAncestors =
     [Node (StmtNode (intExpr 23 4 16 14 (BinaryOperator BO_Add 17 21) chainABCDSyntax))
        Unselected [chainABC],
      Node (StmtNode (intExpr 2 2 17 2 (CallExpr 7) (StmtT [StmtT [], chainABCDSyntax])))
        Unselected [],
      Node (StmtNode (plainStmt 1 0 20 CompoundStmt)) Unselected [],
      Node (DeclNode (plainDecl 30 0 20 OtherDecl)) Unselected []]"

text \<open>
  The body \<^verbatim>\<open>{ f(a + b + c + d + e); }\<close>, with \<^verbatim>\<open>b + c + d\<close> selected. The common
  ancestor of the selection is the operator of \<^verbatim>\<open>a + b + c + d\<close>, which spans 4 to 16
  and has its operator at 14; its selected children are the operator of
  \<^verbatim>\<open>a + b + c\<close>, as above, and the implicit cast of \<^verbatim>\<open>d\<close>. The whole sum spans 4 to
  20, with its operator at 18, the call 2 to 21 and the block 0 to 24.
\<close>

definition chainLongBuffer :: string where
  "chainLongBuffer = ''{ f(a + b + c + d + e); }''"

definition chainABCD :: Node where
  "chainABCD =
     Node (StmtNode (intExpr 23 4 16 14 (BinaryOperator BO_Add 17 21) chainABCDSyntax))
       Complete [chainABC, chainOperand 21 16]"

definition chainLongAncestors :: "Node list" where
  "chainLongAncestors =
     [Node (StmtNode (intExpr 27 4 20 18 (BinaryOperator BO_Add 23 25)
         (StmtT [chainABCDSyntax, StmtT [DeclRefExprT (chainDecl 25)]])))
        Unselected [chainABCD],
      Node (StmtNode (intExpr 2 2 21 2 (CallExpr 7)
         (StmtT [StmtT [], StmtT [chainABCDSyntax, StmtT [DeclRefExprT (chainDecl 25)]]])))
        Unselected [],
      Node (StmtNode (plainStmt 1 0 24 CompoundStmt)) Unselected [],
      Node (DeclNode (plainDecl 30 0 24 OtherDecl)) Unselected []]"

text \<open>
  The same body \<^verbatim>\<open>{ f(a + b + c + d); }\<close> with \<^verbatim>\<open>b + c\<close> selected, where the
  variables are of a class type and \<^verbatim>\<open>+\<close> is an overloaded operator: every sum is an
  operator call, with the reference to the operator function as callee. The selected
  children of the call of \<^verbatim>\<open>a + b + c\<close> are the call of \<^verbatim>\<open>a + b\<close>, the implicit cast
  of its own callee at the offset 10, and \<^verbatim>\<open>c\<close>; the callee of \<^verbatim>\<open>a + b\<close> is not
  selected.
\<close>

definition callPlus :: Decl where
  "callPlus = \<lparr> DeclAddr = 40, DeclClass = OtherDecl,
                DeclBeginLoc = Loc (FileEntry 1) 400, DeclEndLoc = Loc (FileEntry 1) 440 \<rparr>"

definition callOperand :: "addr \<Rightarrow> nat \<Rightarrow> Node" where
  "callOperand A Off =
     Node (StmtNode (intExpr A Off Off Off DeclRefExpr (DeclRefExprT (chainDecl A)))) Complete []"

definition callABSyntax :: StmtTree where
  "callABSyntax =
     StmtT [DeclRefExprT (chainDecl 9), StmtT [DeclRefExprT callPlus], DeclRefExprT (chainDecl 11)]"

definition callAB :: Node where
  "callAB =
     Node (StmtNode (intExpr 15 4 8 6 (CXXOperatorCallExpr 31 (Some (BO_Add, 9, 11))) callABSyntax))
       Unselected [callOperand 11 8]"

definition callABCSyntax :: StmtTree where
  "callABCSyntax =
     StmtT [callABSyntax, StmtT [DeclRefExprT callPlus], DeclRefExprT (chainDecl 13)]"

definition callABC :: Node where
  "callABC =
     Node (StmtNode (intExpr 17 4 12 10 (CXXOperatorCallExpr 33 (Some (BO_Add, 15, 13)))
             callABCSyntax))
       Complete
       [callAB,
        Node (StmtNode (intExpr 33 10 10 10 OtherExpr (StmtT [DeclRefExprT callPlus]))) Complete
          [Node (StmtNode (intExpr 34 10 10 10 DeclRefExpr (DeclRefExprT callPlus))) Complete []],
        callOperand 13 12]"

definition callAncestors :: "Node list" where
  "callAncestors =
     [Node (StmtNode (intExpr 23 4 16 14 (CXXOperatorCallExpr 35 (Some (BO_Add, 17, 21)))
         (StmtT [callABCSyntax, StmtT [DeclRefExprT callPlus], DeclRefExprT (chainDecl 21)])))
        Unselected [callABC],
      Node (StmtNode (intExpr 2 2 17 2 (CallExpr 7) (StmtT [])))
        Unselected [],
      Node (StmtNode (plainStmt 1 0 20 CompoundStmt)) Unselected [],
      Node (DeclNode (plainDecl 30 0 20 OtherDecl)) Unselected []]"

text \<open>
  The body \<^verbatim>\<open>{ f(a * b + c + d); }\<close>, with \<^verbatim>\<open>a * b + c\<close> selected: the left operand of
  the selected sum is a product, which spans 4 to 8 and has both operands selected.
\<close>

definition mixedBuffer :: string where
  "mixedBuffer = ''{ f(a * b + c + d); }''"

definition mixedAB :: Node where
  "mixedAB =
     Node (StmtNode (intExpr 15 4 8 6 (BinaryOperator BO_Mul 9 11) chainABSyntax))
       Complete [chainOperand 9 4, chainOperand 11 8]"

definition mixedABC :: Node where
  "mixedABC =
     Node (StmtNode (intExpr 17 4 12 10 (BinaryOperator BO_Add 15 13) chainABCSyntax))
       Complete [mixedAB, chainOperand 13 12]"

subsection \<open>The body of a loop\<close>





subsection \<open>An expression statement\<close>

text \<open>
  The body \<^verbatim>\<open>{ 1 + 2; }\<close> of a function, with \<^verbatim>\<open>1 + 2\<close> selected. The sum spans the
  offsets 2 to 6, with its operator at 4, and the block 0 to 9.
\<close>

definition stmtBuffer :: string where
  "stmtBuffer = ''{ 1 + 2; }''"

definition stmtSum :: Stmt where
  "stmtSum = intExpr 3 2 6 4 (BinaryOperator BO_Add 4 5) (StmtT [StmtT [], StmtT []])"

definition stmtSumNode :: Node where
  "stmtSumNode =
     Node (StmtNode stmtSum) Complete
       [Node (StmtNode (intExpr 4 2 2 2 OtherExpr (StmtT []))) Complete [],
        Node (StmtNode (intExpr 5 6 6 6 OtherExpr (StmtT []))) Complete []]"

definition stmtAncestors :: "Node list" where
  "stmtAncestors =
     [Node (StmtNode (plainStmt 1 0 9 CompoundStmt)) Unselected [],
      Node (DeclNode (plainDecl 30 0 9 OtherDecl)) Unselected []]"

lemmas stmt_defs =
  stmtBuffer_def stmtSum_def stmtSumNode_def stmtAncestors_def

subsection \<open>An expression at the root of the selection tree\<close>

definition rootSelection :: TweakSelection where
  "rootSelection =
     \<lparr> SelectionBegin = 2, SelectionEnd = 7,
       getSourceManager = exampleSM stmtBuffer, getASTContext = exampleCtx,
       commonAncestor = Some (stmtSumNode, []) \<rparr>"

lemmas root_defs =
  rootSelection_def scopeSelection_def

subsection \<open>A property setter\<close>

text \<open>
  In a language version before C++11, the argument of the call of the block above is a
  property reference of pseudo-object type that messages the setter.
\<close>

definition setterCtx :: ASTContext where
  "setterCtx = \<lparr> CPlusPlus11 = False, printType = (\<lambda>T Name. ''id '' @ Name) \<rparr>"

definition setterNode :: Node where
  "setterNode =
     Node (StmtNode
        \<lparr> StmtAddr = 3,
          StmtClass = IsExpr \<lparr> ExprType = Some PseudoObjectTy, ExprLoc = fileLoc 15,
                               ExprClass = ObjCPropertyRefExpr True False True None None,
                               Traversal = StmtT [] \<rparr>,
          StmtBeginLoc = fileLoc 15, StmtEndLoc = fileLoc 19 \<rparr>) Complete []"

lemmas setter_defs =
  setterCtx_def setterNode_def

subsection \<open>Closures\<close>

text \<open>
  The expression \<^verbatim>\<open>[] { return g; }() + l()\<close>, where \<^verbatim>\<open>g\<close> is a global variable and
  \<^verbatim>\<open>l\<close> a variable that holds a closure. Each call is an operator call whose callee is a
  reference to the call operator of the closure type; the first is the call of an
  immediately-invoked closure, the second is not.
\<close>

definition closureG :: Decl where
  "closureG = plainDecl 40 0 8 (VarDecl False None)"

definition closureL :: Decl where
  "closureL = plainDecl 41 10 30 (VarDecl False (Some 50))"

definition closureCallOp :: Decl where
  "closureCallOp = plainDecl 42 50 70 (CXXMethodDecl True)"

definition closureCallOpL :: Decl where
  "closureCallOpL = plainDecl 43 19 30 (CXXMethodDecl True)"

definition closureSyntax :: StmtTree where
  "closureSyntax =
     StmtT [StmtT [StmtT [DeclRefExprT closureCallOp],
                   LambdaExprT [] [] [] True [] [] [] [StmtT [StmtT [DeclRefExprT closureG]]]],
            StmtT [StmtT [DeclRefExprT closureCallOpL], DeclRefExprT closureL]]"

lemmas closure_defs =
  closureG_def closureL_def closureCallOp_def closureCallOpL_def closureSyntax_def

section \<open>Properties\<close>

subsection \<open>Auxiliary facts\<close>




lemma insertionPointLoop_parm:
  assumes "get_Expr (ASTNode N) = Some E" and "get_ParmVarDecl (ASTNode Parent) = Some P"
  shows "insertionPointLoop SM Refs N (Parent # Ancestors) = None"
proof -
  from assms(1) obtain S where "ASTNode N = StmtNode S" and "isaExpr S"
    by (cases "ASTNode N") (auto simp: isaExpr_def split: StmtClass.splits)
  then have "\<not> CanExtractOutside N Parent"
    using assms(2) by (simp add: CanExtractOutside_def)
  then show ?thesis by simp
qed

lemma insertionPointLoop_compound:
  assumes "insertionPointLoop SM Refs N Ancestors = Some S"
  shows "\<exists>i < length Ancestors.
           get_Stmt (ASTNode ((N # Ancestors) ! i)) = Some S \<and>
           (\<exists>P. get_Stmt (ASTNode (Ancestors ! i)) = Some P \<and> isaCompoundStmt P \<and>
                \<not> isMacroID (StmtBeginLoc P))"
  using assms
proof (induction Ancestors arbitrary: N)
  case Nil
  then show ?case by simp
next
  case (Cons Parent Ancestors)
  show ?case
  proof (cases "insertionPointLoop SM Refs N (Parent # Ancestors) =
                insertionPointLoop SM Refs Parent Ancestors")
    case True
    with Cons.prems have "insertionPointLoop SM Refs Parent Ancestors = Some S" by simp
    from Cons.IH [OF this] obtain i where "i < length Ancestors"
      and "get_Stmt (ASTNode ((Parent # Ancestors) ! i)) = Some S"
      and "\<exists>P. get_Stmt (ASTNode (Ancestors ! i)) = Some P \<and> isaCompoundStmt P \<and>
                \<not> isMacroID (StmtBeginLoc P)"
      by blast
    then have "Suc i < length (Parent # Ancestors) \<and>
       get_Stmt (ASTNode ((N # Parent # Ancestors) ! Suc i)) = Some S \<and>
       (\<exists>P. get_Stmt (ASTNode ((Parent # Ancestors) ! Suc i)) = Some P \<and> isaCompoundStmt P \<and>
                \<not> isMacroID (StmtBeginLoc P))"
      by simp
    then show ?thesis by blast
  next
    case False
    with Cons.prems have "get_Stmt (ASTNode N) = Some S \<and>
       (\<exists>P. get_Stmt (ASTNode Parent) = Some P \<and> isaCompoundStmt P \<and>
                \<not> isMacroID (StmtBeginLoc P))"
      by (auto simp: Let_def split: if_splits option.splits)
    then have "0 < length (Parent # Ancestors) \<and>
       get_Stmt (ASTNode ((N # Parent # Ancestors) ! 0)) = Some S \<and>
       (\<exists>P. get_Stmt (ASTNode ((Parent # Ancestors) ! 0)) = Some P \<and> isaCompoundStmt P \<and>
                \<not> isMacroID (StmtBeginLoc P))"
      by simp
    then show ?thesis by blast
  qed
qed

lemma insertionPointLoop_skip_macro:
  assumes "CanExtractOutside N Parent"
    and "\<forall>S. get_Stmt (ASTNode N) = Some S \<longrightarrow> exprIsValidOutside SM Refs S"
    and "get_Stmt (ASTNode Parent) = Some P" and "isaCompoundStmt P"
    and "isMacroID (StmtBeginLoc P)"
  shows "insertionPointLoop SM Refs N (Parent # Ancestors) =
         insertionPointLoop SM Refs Parent Ancestors"
  using assms by (simp add: Let_def split: option.splits)



lemma eligible_root:
  assumes "snd (outerImplicit N Ancestors) = []"
  shows "eligibleForExtraction N Ancestors \<noteq> Some True \<and>
         (parse N \<noteq> None \<longrightarrow> eligibleForExtraction N Ancestors = Some False)"
  using assms
  by (auto simp: eligibleForExtraction_def Let_def split: option.splits)

lemma computeExtractedExpr_eligible:
  "computeExtractedExpr NPtr = Some (Some T) \<Longrightarrow>
   eligibleForExtraction (fst T) (snd T) = Some True"
  by (auto simp: computeExtractedExpr_def Let_def split: option.splits if_splits)

lemma newExtractionContext_node:
  "newExtractionContext N Ancestors SM Ctx = Some T \<Longrightarrow>
   ExprNode T = N \<and> ExprNodeAncestors T = Ancestors"
  by (auto simp: newExtractionContext_def Let_def split: option.splits)

lemma prepare_has_parent:
  assumes "prepare Inputs None = Some (Verdict, Some T)"
  shows "snd (outerImplicit (ExprNode T) (ExprNodeAncestors T)) \<noteq> []"
proof -
  from assms obtain X where X: "computeExtractedExpr (commonAncestor Inputs) = Some (Some X)"
    and T: "newExtractionContext (fst X) (snd X) (getSourceManager Inputs)
              (getASTContext Inputs) = Some T"
    by (auto simp: prepare_def split: if_splits option.splits)
  from computeExtractedExpr_eligible [OF X] have "snd (outerImplicit (fst X) (snd X)) \<noteq> []"
    using eligible_root by blast
  with newExtractionContext_node [OF T] show ?thesis by simp
qed

lemma prepare_root:
  assumes "commonAncestor Inputs = Some (N, Ancestors)"
    and "snd (outerImplicit N Ancestors) = []" and "parse N \<noteq> None"
  shows "prepare Inputs None = Some (False, None)"
proof -
  have G: "getCallExpr N Ancestors = None"
    using assms(2) by (simp add: getCallExpr_def)
  have E: "eligibleForExtraction N Ancestors = Some False"
    using eligible_root [OF assms(2)] assms(3) by simp
  have "computeExtractedExpr (Some (N, Ancestors)) = Some None"
    using G E by (simp add: computeExtractedExpr_def Let_def split: option.splits)
  with assms(1) show ?thesis by (simp add: prepare_def)
qed





lemma fold_append_concat:
  assumes "\<And>S Refs. S \<in> set Ss \<Longrightarrow> f S Refs = Refs @ g S"
  shows "fold f Ss Refs = Refs @ concat (map g Ss)"
  using assms by (induction Ss arbitrary: Refs) simp_all

lemma VisitDeclRefExpr_filter:
  "VisitDeclRefExpr D Refs = Refs @ filter (\<lambda>D. \<not> isClosureMethod D) [D]"
  by (auto simp: VisitDeclRefExpr_def isClosureMethod_def split: DeclClass.splits)

lemma TraverseStmt_append:
  "TraverseStmt S Refs = Refs @ filter (\<lambda>D. \<not> isClosureMethod D) (walkedReferences S)"
proof (induction S arbitrary: Refs)
  case (DeclRefExprT D)
  show ?case by (simp add: VisitDeclRefExpr_filter del: filter.simps)
next
  case (LambdaExprT Captures Requires TemplateParams HasCallOperator ReturnType Params Attrs Body)
  let ?g = "\<lambda>S. filter (\<lambda>D. \<not> isClosureMethod D) (walkedReferences S)"
  have C: "\<And>Refs. fold TraverseStmt Captures Refs = Refs @ concat (map ?g Captures)"
    by (rule fold_append_concat) (use LambdaExprT in auto)
  have R: "\<And>Refs. fold TraverseStmt Requires Refs = Refs @ concat (map ?g Requires)"
    by (rule fold_append_concat) (use LambdaExprT in auto)
  have T: "\<And>Refs. fold TraverseStmt TemplateParams Refs =
                   Refs @ concat (map ?g TemplateParams)"
    by (rule fold_append_concat) (use LambdaExprT in auto)
  have Y: "\<And>Refs. fold TraverseStmt ReturnType Refs = Refs @ concat (map ?g ReturnType)"
    by (rule fold_append_concat) (use LambdaExprT in auto)
  have P: "\<And>Refs. fold TraverseStmt Params Refs = Refs @ concat (map ?g Params)"
    by (rule fold_append_concat) (use LambdaExprT in auto)
  have A: "\<And>Refs. fold TraverseStmt Attrs Refs = Refs @ concat (map ?g Attrs)"
    by (rule fold_append_concat) (use LambdaExprT in auto)
  show ?case
    by (simp add: C R T Y P A Let_def filter_concat comp_def)
next
  case (StmtT SubStmts)
  have "fold TraverseStmt SubStmts Refs =
        Refs @ concat (map (\<lambda>S. filter (\<lambda>D. \<not> isClosureMethod D) (walkedReferences S))
                         SubStmts)"
    by (rule fold_append_concat) (use StmtT in auto)
  then show ?case by (simp add: filter_concat comp_def)
qed

lemma selectArgs_filter:
  "list_all isExprNode Cs \<Longrightarrow> selectArgs Arg0 Arg1 Cs = Some (filter (isArgument Arg0 Arg1) Cs)"
  by (induction Cs) (auto simp: isExprNode_def isArgument_def split: option.splits)

lemma crossesLoop_list_ex:
  "list_all isExprNode Ops \<Longrightarrow>
   crossesLoop F Ops = Some (list_ex (\<lambda>C. exprFile C \<noteq> F) Ops)"
  by (induction Ops) (auto simp: isExprNode_def exprFile_def split: option.splits)

lemma operandsOf_children: "set (operandsOf N) \<subseteq> set (Children N)"
proof (cases "get_Expr (ASTNode N)")
  case None
  then show ?thesis by (simp add: operandsOf_def)
next
  case (Some E)
  then show ?thesis
    by (cases "ExprClass (snd E)") (auto simp: operandsOf_def split: option.splits)
qed

lemma parse_operator:
  assumes "operatorKind N = Some K" and "list_all isExprNode (Children N)"
  shows "\<exists>Op. parse N = Some (Some Op) \<and> Kind Op = K \<and> SelectedOperands Op = operandsOf N \<and>
              crossesMacroBoundary Op = Some (straddlesMacro N)"
proof -
  have A: "list_all isExprNode (operandsOf N)"
    using assms(2) operandsOf_children [of N] by (auto simp: list_all_iff)
  from assms(1) obtain E where E: "get_Expr (ASTNode N) = Some E"
    by (auto simp: operatorKind_def split: option.splits)
  show ?thesis
  proof (cases "ExprClass (snd E)")
    case (BinaryOperator Opc L R)
    with E assms(1) A show ?thesis
      by (simp add: parse_def operatorKind_def operandsOf_def crossesMacroBoundary_def
          straddlesMacro_def exprFile_def crossesLoop_list_ex)
  next
    case (CXXOperatorCallExpr Callee Infix)
    with E assms(1) obtain Arg0 Arg1 where I: "Infix = Some (K, Arg0, Arg1)"
      by (auto simp: operatorKind_def)
    with CXXOperatorCallExpr E assms(2) A show ?thesis
      by (simp add: parse_def operandsOf_def crossesMacroBoundary_def
          straddlesMacro_def exprFile_def crossesLoop_list_ex selectArgs_filter)
  qed (use E assms(1) in \<open>auto simp: operatorKind_def\<close>)
qed

lemma parse_no_operator:
  "operatorKind N = None \<Longrightarrow> parse N = Some None"
  by (auto simp: operatorKind_def parse_def split: option.splits ExprClass.splits)

lemma pushDownStart_stop:
  assumes "chainStop OuterOp X"
  shows "pushDownStart OuterOp X = Some X"
proof (cases "operatorKind (ignoreImplicit X)")
  case None
  then show ?thesis
    by (subst pushDownStart.simps) (simp add: parse_no_operator)
next
  case (Some Opc)
  with assms have C: "list_all isExprNode (Children (ignoreImplicit X))"
    and D: "Opc \<noteq> OuterOp \<or> straddlesMacro (ignoreImplicit X)"
    by (auto simp: chainStop_def)
  from parse_operator [OF Some C] obtain Op where
    "parse (ignoreImplicit X) = Some (Some Op)" "Kind Op = Opc"
    "crossesMacroBoundary Op = Some (straddlesMacro (ignoreImplicit X))"
    by blast
  with D show ?thesis
    by (subst pushDownStart.simps) auto
qed

lemma pushDownStart_link:
  assumes "chainLink OuterOp X"
  shows "pushDownStart OuterOp X =
         (case operandsOf (ignoreImplicit X) of
            [] \<Rightarrow> None
          | [RHS] \<Rightarrow> Some RHS
          | LHS # R # Rs \<Rightarrow> pushDownStart OuterOp LHS)"
proof -
  from assms parse_operator [of "ignoreImplicit X" OuterOp] obtain Op where
    "parse (ignoreImplicit X) = Some (Some Op)" "Kind Op = OuterOp"
    "SelectedOperands Op = operandsOf (ignoreImplicit X)"
    "crossesMacroBoundary Op = Some False"
    by (auto simp: chainLink_def)
  then show ?thesis
    by (subst pushDownStart.simps) simp
qed

lemma pushDownStart_leftEdge:
  "leftEdge OuterOp (X # Xs) Start \<Longrightarrow> pushDownStart OuterOp X = Some Start"
proof (induction Xs arbitrary: X)
  case Nil
  then show ?case
    by (auto simp: pushDownStart_link pushDownStart_stop)
next
  case (Cons Y Ys)
  from Cons.prems have E: "leftEdge OuterOp (Y # Ys) Start" by simp
  from Cons.prems have "pushDownStart OuterOp X = pushDownStart OuterOp Y"
    by (auto simp: pushDownStart_link split: list.splits)
  with Cons.IH [OF E] show ?case by simp
qed

lemma newExtractionContext_fields:
  "newExtractionContext N Ancestors SM Ctx = Some T \<Longrightarrow>
   ExprNode T = N \<and> ExprNodeAncestors T = Ancestors \<and> SrcMgr T = SM \<and> AstCtx T = Ctx"
  by (auto simp: newExtractionContext_def Let_def split: option.splits)







subsection \<open>The extraction context\<close>

text \<open>
  C1: a candidate that the constructor builds from a selection node is extractable if and
  only if an insertion point was found and the inferred type of the variable is not null.
  The insertion point is the one that the search computes from the referenced
  declarations of the expression, and the type is null exactly when the inferred type is.
\<close>

theorem extractable_iff_insertion_point_and_type:
  assumes "newExtractionContext N Ancestors SM Ctx = Some T"
  shows "(Extractable T \<longleftrightarrow> InsertionPoint T \<noteq> None \<and> VarType T \<noteq> None) \<and>
         InsertionPoint T =
           computeInsertionPoint SM (computeReferencedDecls (snd (TheExpr T))) N Ancestors \<and>
         (VarType T = None \<longleftrightarrow> computeVariableType (snd (TheExpr T)) Ctx = Some None)"
  using assms
  by (auto simp: newExtractionContext_def Let_def split: option.splits if_splits)

theorem extractable_iff_insertion_point_and_type_witness:
  "(\<exists>T. newExtractionContext scopeSumNode scopeAncestors (exampleSM scopeBuffer) exampleCtx =
          Some T \<and>
        Extractable T \<and> InsertionPoint T = Some scopeCall \<and> VarType T = Some AutoDeductTy) \<and>
   (\<exists>T. newExtractionContext setterNode scopeAncestors (exampleSM scopeBuffer) setterCtx =
          Some T \<and>
        \<not> Extractable T \<and> InsertionPoint T = Some scopeCall \<and> VarType T = None)"
proof -
  have "map_option (\<lambda>T. (InsertionPoint T, VarType T))
          (newExtractionContext scopeSumNode scopeAncestors (exampleSM scopeBuffer)
             exampleCtx) =
        Some (Some scopeCall, Some AutoDeductTy)"
    by (simp add: base_defs scope_defs newExtractionContext_def computeInsertionPoint_def
        CanExtractOutside_def isaExpr_def computeReferencedDecls_def VisitDeclRefExpr_def
        computeVariableType_def)
  then obtain T where T:
    "newExtractionContext scopeSumNode scopeAncestors (exampleSM scopeBuffer) exampleCtx =
     Some T"
    and F: "InsertionPoint T = Some scopeCall" "VarType T = Some AutoDeductTy"
    by auto
  from extractable_iff_insertion_point_and_type [OF T] F have E: "Extractable T" by simp
  have "map_option (\<lambda>T. (InsertionPoint T, VarType T))
          (newExtractionContext setterNode scopeAncestors (exampleSM scopeBuffer) setterCtx) =
        Some (Some scopeCall, None)"
    by (simp add: base_defs scope_defs setter_defs newExtractionContext_def
        computeInsertionPoint_def CanExtractOutside_def isaExpr_def computeReferencedDecls_def
        computeVariableType_def)
  then obtain U where U:
    "newExtractionContext setterNode scopeAncestors (exampleSM scopeBuffer) setterCtx = Some U"
    and G: "InsertionPoint U = Some scopeCall" "VarType U = None"
    by auto
  from extractable_iff_insertion_point_and_type [OF U] G have "\<not> Extractable U" by simp
  with T F E U G show ?thesis by blast
qed

subsection \<open>The insertion point\<close>




text \<open>
  C7: an insertion point that the search returns is the statement of a node on the path
  from the candidate to the root whose parent in the selection tree is a compound
  statement that does not begin in a macro expansion. A compound parent that begins in a
  macro expansion is skipped: the search goes on from that parent.
\<close>

theorem insertion_point_parent_is_block_outside_macro:
  "(\<forall>S. computeInsertionPoint SM Refs N Ancestors = Some S \<longrightarrow>
      (\<exists>i < length Ancestors.
         get_Stmt (ASTNode ((N # Ancestors) ! i)) = Some S \<and>
         (\<exists>P. get_Stmt (ASTNode (Ancestors ! i)) = Some P \<and> isaCompoundStmt P \<and>
              \<not> isMacroID (StmtBeginLoc P)))) \<and>
   (\<forall>Parent Rest P.
      Ancestors = Parent # Rest \<and> CanExtractOutside N Parent \<and>
      (\<forall>S. get_Stmt (ASTNode N) = Some S \<longrightarrow> exprIsValidOutside SM Refs S) \<and>
      get_Stmt (ASTNode Parent) = Some P \<and> isaCompoundStmt P \<and> isMacroID (StmtBeginLoc P) \<longrightarrow>
      computeInsertionPoint SM Refs N Ancestors = computeInsertionPoint SM Refs Parent Rest)"
  unfolding computeInsertionPoint_def
  using insertionPointLoop_compound insertionPointLoop_skip_macro by blast

theorem insertion_point_parent_is_block_outside_macro_witness:
  "computeInsertionPoint (exampleSM macroBuffer) [] macroSumNode
     (macroCallNode # Node (StmtNode macroInner) Unselected [] # macroOuter) = Some macroInner \<and>
   (\<exists>i < 4. get_Stmt (ASTNode ((macroSumNode # macroCallNode #
                 Node (StmtNode macroInner) Unselected [] # macroOuter) ! i)) = Some macroInner \<and>
      (\<exists>P. get_Stmt (ASTNode ((macroCallNode #
                 Node (StmtNode macroInner) Unselected [] # macroOuter) ! i)) = Some P \<and>
           isaCompoundStmt P \<and> \<not> isMacroID (StmtBeginLoc P))) \<and>
   isMacroID (StmtBeginLoc macroInner) \<and>
   computeInsertionPoint (exampleSM macroBuffer) [] macroCallNode
     (Node (StmtNode macroInner) Unselected [] # macroOuter) =
   computeInsertionPoint (exampleSM macroBuffer) [] (Node (StmtNode macroInner) Unselected [])
     macroOuter"
proof -
  have R: "computeInsertionPoint (exampleSM macroBuffer) [] macroSumNode
     (macroCallNode # Node (StmtNode macroInner) Unselected [] # macroOuter) = Some macroInner"
    by (simp add: base_defs macro_defs computeInsertionPoint_def CanExtractOutside_def isaExpr_def)
  have L: "length (macroCallNode # Node (StmtNode macroInner) Unselected [] # macroOuter) = 4"
    by (simp add: macroOuter_def)
  have M: "isMacroID (StmtBeginLoc macroInner)"
    by (simp add: macroInner_def)
  have C: "CanExtractOutside macroCallNode (Node (StmtNode macroInner) Unselected [])"
    by (simp add: base_defs macro_defs CanExtractOutside_def isaExpr_def)
  have I: "isaCompoundStmt macroInner"
    by (simp add: macroInner_def)
  note W = insertion_point_parent_is_block_outside_macro
  from W [of "exampleSM macroBuffer" "[]" macroSumNode
           "macroCallNode # Node (StmtNode macroInner) Unselected [] # macroOuter"] R L
  have A: "\<exists>i < 4. get_Stmt (ASTNode ((macroSumNode # macroCallNode #
                 Node (StmtNode macroInner) Unselected [] # macroOuter) ! i)) = Some macroInner \<and>
      (\<exists>P. get_Stmt (ASTNode ((macroCallNode #
                 Node (StmtNode macroInner) Unselected [] # macroOuter) ! i)) = Some P \<and>
           isaCompoundStmt P \<and> \<not> isMacroID (StmtBeginLoc P))"
    by simp
  from W [of "exampleSM macroBuffer" "[]" macroCallNode
           "Node (StmtNode macroInner) Unselected [] # macroOuter"] C I M
  have B: "computeInsertionPoint (exampleSM macroBuffer) [] macroCallNode
     (Node (StmtNode macroInner) Unselected [] # macroOuter) =
   computeInsertionPoint (exampleSM macroBuffer) [] (Node (StmtNode macroInner) Unselected [])
     macroOuter"
    by simp
  from R A M B show ?thesis by blast
qed

text \<open>
  C9: when the parent of the candidate expression in the selection tree is a parameter
  declaration, the search stops at the candidate: there is no insertion point, and the
  extraction context built for the candidate is not extractable.
\<close>

theorem default_argument_not_extractable:
  assumes "get_Expr (ASTNode N) = Some E" and "get_ParmVarDecl (ASTNode Parent) = Some P"
  shows "computeInsertionPoint SM Refs N (Parent # Ancestors) = None \<and>
         (\<forall>T. newExtractionContext N (Parent # Ancestors) SM Ctx = Some T \<longrightarrow>
              InsertionPoint T = None \<and> \<not> Extractable T)"
proof -
  have "\<And>Refs. insertionPointLoop SM Refs N (Parent # Ancestors) = None"
    using assms by (rule insertionPointLoop_parm)
  then show ?thesis
    by (auto simp: newExtractionContext_def computeInsertionPoint_def Let_def
        split: option.splits)
qed

theorem default_argument_not_extractable_witness:
  "get_Expr (ASTNode parmSumNode) \<noteq> None \<and>
   get_ParmVarDecl (ASTNode (Node (DeclNode parmR) Unselected [])) = Some parmR \<and>
   computeInsertionPoint (exampleSM parmBuffer) [] parmSumNode
     (Node (DeclNode parmR) Unselected [] # parmOuter) = None \<and>
   map_option Extractable
     (newExtractionContext parmSumNode (Node (DeclNode parmR) Unselected [] # parmOuter)
        (exampleSM parmBuffer) exampleCtx) = Some False"
proof -
  obtain E where E: "get_Expr (ASTNode parmSumNode) = Some E"
    by (simp add: base_defs parm_defs)
  have P: "get_ParmVarDecl (ASTNode (Node (DeclNode parmR) Unselected [])) = Some parmR"
    by (simp add: base_defs parm_defs)
  have "newExtractionContext parmSumNode (Node (DeclNode parmR) Unselected [] # parmOuter)
        (exampleSM parmBuffer) exampleCtx \<noteq> None"
    by (simp add: base_defs parm_defs newExtractionContext_def computeVariableType_def Let_def)
  then obtain T where T:
    "newExtractionContext parmSumNode (Node (DeclNode parmR) Unselected [] # parmOuter)
        (exampleSM parmBuffer) exampleCtx = Some T"
    by blast
  from default_argument_not_extractable [OF E P, of "exampleSM parmBuffer" "[]" parmOuter exampleCtx] T
  have "computeInsertionPoint (exampleSM parmBuffer) [] parmSumNode
     (Node (DeclNode parmR) Unselected [] # parmOuter) = None" and "\<not> Extractable T"
    by blast+
  with E P T show ?thesis by simp
qed

subsection \<open>The extraction range\<close>

text \<open>
  Where the node of the candidate is no binary operator, or is an operator that is not
  associative, straddles a macro boundary or has not exactly two selected operands, the
  normalizer reports no range and the tweak extracts the whole expression.
\<close>

lemma whole_expression_range:
  assumes "ExprNode T = N"
    and "operatorKind (ignoreImplicit N) = None \<or>
         (\<exists>K. operatorKind (ignoreImplicit N) = Some K \<and>
              list_all isExprNode (Children (ignoreImplicit N)) \<and>
              (\<not> associative K \<or> straddlesMacro (ignoreImplicit N) \<or>
               length (operandsOf (ignoreImplicit N)) \<noteq> 2))"
  shows "getBinaryOperatorRange N (SrcMgr T) = Some (SourceRange InvalidLoc InvalidLoc) \<and>
         getExtractionChars T =
           toHalfOpenFileRange (SrcMgr T)
             (SourceRange (StmtBeginLoc (fst (TheExpr T))) (StmtEndLoc (fst (TheExpr T))))"
proof -
  have "getBinaryOperatorRange N (SrcMgr T) = Some (SourceRange InvalidLoc InvalidLoc)"
  proof (cases "operatorKind (ignoreImplicit N)")
    case None
    then show ?thesis
      by (simp add: getBinaryOperatorRange_def parse_no_operator)
  next
    case (Some K)
    with assms(2) have C: "list_all isExprNode (Children (ignoreImplicit N))"
      and D: "\<not> associative K \<or> straddlesMacro (ignoreImplicit N) \<or>
              length (operandsOf (ignoreImplicit N)) \<noteq> 2"
      by auto
    from parse_operator [OF Some C] obtain Op where
      "parse (ignoreImplicit N) = Some (Some Op)" "Kind Op = K"
      "SelectedOperands Op = operandsOf (ignoreImplicit N)"
      "crossesMacroBoundary Op = Some (straddlesMacro (ignoreImplicit N))"
      by blast
    with D show ?thesis
      by (auto simp: getBinaryOperatorRange_def split: list.splits bool.splits)
  qed
  with assms(1) show ?thesis
    by (simp add: getExtractionChars_def rangeIsValid_def)
qed

text \<open>
  C2: when the node of the candidate is an associative operator with two selected
  operands, the range that the tweak extracts begins where the start found on the left
  edge begins and ends where the right operand of the outer operator ends. The left edge
  is walked down through the left operands that are operators of the same kind, as long
  as the left operand is selected; the start is the right operand of the node of which
  only the right operand is selected, or the node at which the chain of the same kind
  stops. For \<^verbatim>\<open>a + b + c + d\<close> with \<^verbatim>\<open>b + c\<close> selected the range is that of
  \<^verbatim>\<open>b + c\<close>, not that of \<^verbatim>\<open>a + b + c\<close>.
\<close>

theorem associative_chain_range:
  assumes "ExprNode T = N"
    and "chainLink OuterOp N" and "associative OuterOp"
    and "operandsOf (ignoreImplicit N) = [LHS, RHS]"
    and "leftEdge OuterOp (LHS # Path) Start"
    and "toHalfOpenFileRange (SrcMgr T) (getSourceRange (ASTNode Start)) = Some StartRange"
    and "toHalfOpenFileRange (SrcMgr T) (getSourceRange (ASTNode RHS)) = Some EndRange"
    and "isValid (getBegin StartRange)" and "isValid (getEnd EndRange)"
  shows "getBinaryOperatorRange N (SrcMgr T) =
           Some (SourceRange (getBegin StartRange) (getEnd EndRange)) \<and>
         getExtractionChars T = Some (SourceRange (getBegin StartRange) (getEnd EndRange))"
proof -
  from assms(2) parse_operator [of "ignoreImplicit N" OuterOp] obtain Op where
    "parse (ignoreImplicit N) = Some (Some Op)" "Kind Op = OuterOp"
    "SelectedOperands Op = operandsOf (ignoreImplicit N)"
    "crossesMacroBoundary Op = Some False"
    by (auto simp: chainLink_def)
  moreover have "pushDownStart OuterOp LHS = Some Start"
    using assms(5) by (rule pushDownStart_leftEdge)
  ultimately have "getBinaryOperatorRange N (SrcMgr T) =
           Some (SourceRange (getBegin StartRange) (getEnd EndRange))"
    using assms(3,4,6,7) by (simp add: getBinaryOperatorRange_def)
  with assms(1,8,9) show ?thesis
    by (simp add: getExtractionChars_def rangeIsValid_def)
qed

theorem associative_chain_range_witness:
  "(\<exists>T. newExtractionContext chainABC chainAncestors (exampleSM chainBuffer) exampleCtx =
          Some T \<and> Extractable T \<and>
        getExtractionChars T = Some (SourceRange (fileLoc 8) (fileLoc 13))) \<and>
   toSourceCode (exampleSM chainBuffer) (SourceRange (fileLoc 8) (fileLoc 13)) = ''b + c'' \<and>
   toHalfOpenFileRange (exampleSM chainBuffer) (getSourceRange (ASTNode chainABC)) =
     Some (SourceRange (fileLoc 4) (fileLoc 13)) \<and>
   (\<exists>T. newExtractionContext chainABCD chainLongAncestors (exampleSM chainLongBuffer)
          exampleCtx = Some T \<and> Extractable T \<and>
        getExtractionChars T = Some (SourceRange (fileLoc 8) (fileLoc 17))) \<and>
   toSourceCode (exampleSM chainLongBuffer) (SourceRange (fileLoc 8) (fileLoc 17)) =
     ''b + c + d'' \<and>
   (\<exists>T. newExtractionContext callABC callAncestors (exampleSM chainBuffer) exampleCtx =
          Some T \<and> Extractable T \<and>
        getExtractionChars T = Some (SourceRange (fileLoc 8) (fileLoc 13))) \<and>
   (\<exists>T. newExtractionContext mixedABC chainAncestors (exampleSM mixedBuffer) exampleCtx =
          Some T \<and> Extractable T \<and>
        getExtractionChars T = Some (SourceRange (fileLoc 4) (fileLoc 13))) \<and>
   toSourceCode (exampleSM mixedBuffer) (SourceRange (fileLoc 4) (fileLoc 13)) = ''a * b + c''"
proof -
  note chain_spec_defs =
    chainLink_def chainStop_def operatorKind_def operandsOf_def straddlesMacro_def
    exprFile_def isExprNode_def isArgument_def
  note context_eval_defs =
    newExtractionContext_def computeInsertionPoint_def CanExtractOutside_def isaExpr_def
    computeReferencedDecls_def VisitDeclRefExpr_def computeVariableType_def
  note node_defs = chainABCD_def chainABC_def chainAB_def chainOperand_def
    callABC_def callAB_def callOperand_def mixedABC_def mixedAB_def
    chainABCDSyntax_def chainABCSyntax_def chainABSyntax_def callABCSyntax_def
    callABSyntax_def chainDecl_def callPlus_def
    chainAncestors_def chainLongAncestors_def callAncestors_def base_defs
  note W = associative_chain_range
  have R: "\<And>Buffer A Off. toHalfOpenFileRange (exampleSM Buffer)
             (getSourceRange (ASTNode (chainOperand A Off))) =
           Some (SourceRange (fileLoc Off) (fileLoc (Off + 1)))"
     "\<And>Buffer A Off. toHalfOpenFileRange (exampleSM Buffer)
             (getSourceRange (ASTNode (callOperand A Off))) =
           Some (SourceRange (fileLoc Off) (fileLoc (Off + 1)))"
     "\<And>Buffer. toHalfOpenFileRange (exampleSM Buffer) (getSourceRange (ASTNode mixedAB)) =
           Some (SourceRange (fileLoc 4) (fileLoc 9))"
    by (simp_all add: node_defs)
  have V: "\<And>Off. isValid (fileLoc Off)"
    by (simp add: fileLoc_def)

  have "map_option Extractable
          (newExtractionContext chainABC chainAncestors (exampleSM chainBuffer) exampleCtx) =
        Some True"
    by (simp add: node_defs context_eval_defs)
  then obtain T1 where T1:
    "newExtractionContext chainABC chainAncestors (exampleSM chainBuffer) exampleCtx = Some T1"
    "Extractable T1"
    by auto
  note F1 = newExtractionContext_fields [OF T1(1)]
  have "getExtractionChars T1 = Some (SourceRange (fileLoc 8) (fileLoc 13))"
    using W [of T1 chainABC BO_Add chainAB "chainOperand 13 12" "[]" "chainOperand 11 8"
               "SourceRange (fileLoc 8) (fileLoc 9)" "SourceRange (fileLoc 12) (fileLoc 13)"]
      F1 R V
    by (simp add: chain_spec_defs chainABC_def chainAB_def chainOperand_def base_defs)
  with T1 have A1: "\<exists>T. newExtractionContext chainABC chainAncestors (exampleSM chainBuffer)
                        exampleCtx = Some T \<and> Extractable T \<and>
        getExtractionChars T = Some (SourceRange (fileLoc 8) (fileLoc 13))"
    by blast

  have "map_option Extractable
          (newExtractionContext chainABCD chainLongAncestors (exampleSM chainLongBuffer)
             exampleCtx) = Some True"
    by (simp add: node_defs context_eval_defs)
  then obtain T2 where T2:
    "newExtractionContext chainABCD chainLongAncestors (exampleSM chainLongBuffer) exampleCtx =
     Some T2" "Extractable T2"
    by auto
  note F2 = newExtractionContext_fields [OF T2(1)]
  have "getExtractionChars T2 = Some (SourceRange (fileLoc 8) (fileLoc 17))"
    using W [of T2 chainABCD BO_Add chainABC "chainOperand 21 16" "[chainAB]"
               "chainOperand 11 8"
               "SourceRange (fileLoc 8) (fileLoc 9)" "SourceRange (fileLoc 16) (fileLoc 17)"]
      F2 R V
    by (simp add: chain_spec_defs chainABCD_def chainABC_def chainAB_def chainOperand_def
        base_defs)
  with T2 have A2: "\<exists>T. newExtractionContext chainABCD chainLongAncestors
                        (exampleSM chainLongBuffer) exampleCtx = Some T \<and> Extractable T \<and>
        getExtractionChars T = Some (SourceRange (fileLoc 8) (fileLoc 17))"
    by blast

  have "map_option Extractable
          (newExtractionContext callABC callAncestors (exampleSM chainBuffer) exampleCtx) =
        Some True"
    by (simp add: node_defs context_eval_defs)
  then obtain T3 where T3:
    "newExtractionContext callABC callAncestors (exampleSM chainBuffer) exampleCtx = Some T3"
    "Extractable T3"
    by auto
  note F3 = newExtractionContext_fields [OF T3(1)]
  have "getExtractionChars T3 = Some (SourceRange (fileLoc 8) (fileLoc 13))"
    using W [of T3 callABC BO_Add callAB "callOperand 13 12" "[]" "callOperand 11 8"
               "SourceRange (fileLoc 8) (fileLoc 9)" "SourceRange (fileLoc 12) (fileLoc 13)"]
      F3 R V
    by (simp add: chain_spec_defs callABC_def callAB_def callOperand_def base_defs)
  with T3 have A3: "\<exists>T. newExtractionContext callABC callAncestors (exampleSM chainBuffer)
                        exampleCtx = Some T \<and> Extractable T \<and>
        getExtractionChars T = Some (SourceRange (fileLoc 8) (fileLoc 13))"
    by blast

  have "map_option Extractable
          (newExtractionContext mixedABC chainAncestors (exampleSM mixedBuffer) exampleCtx) =
        Some True"
    by (simp add: node_defs context_eval_defs)
  then obtain T4 where T4:
    "newExtractionContext mixedABC chainAncestors (exampleSM mixedBuffer) exampleCtx = Some T4"
    "Extractable T4"
    by auto
  note F4 = newExtractionContext_fields [OF T4(1)]
  have "getExtractionChars T4 = Some (SourceRange (fileLoc 4) (fileLoc 13))"
    using W [of T4 mixedABC BO_Add mixedAB "chainOperand 13 12" "[]" mixedAB
               "SourceRange (fileLoc 4) (fileLoc 9)" "SourceRange (fileLoc 12) (fileLoc 13)"]
      F4 R V
    by (simp add: chain_spec_defs mixedABC_def mixedAB_def chainOperand_def base_defs)
  with T4 have A4: "\<exists>T. newExtractionContext mixedABC chainAncestors (exampleSM mixedBuffer)
                        exampleCtx = Some T \<and> Extractable T \<and>
        getExtractionChars T = Some (SourceRange (fileLoc 4) (fileLoc 13))"
    by blast

  have S: "toSourceCode (exampleSM chainBuffer) (SourceRange (fileLoc 8) (fileLoc 13)) = ''b + c''"
    "toHalfOpenFileRange (exampleSM chainBuffer) (getSourceRange (ASTNode chainABC)) =
     Some (SourceRange (fileLoc 4) (fileLoc 13))"
    "toSourceCode (exampleSM chainLongBuffer) (SourceRange (fileLoc 8) (fileLoc 17)) =
     ''b + c + d''"
    "toSourceCode (exampleSM mixedBuffer) (SourceRange (fileLoc 4) (fileLoc 13)) = ''a * b + c''"
    by (simp_all add: base_defs chainBuffer_def chainLongBuffer_def mixedBuffer_def chainABC_def)
  from A1 A2 A3 A4 S show ?thesis by blast
qed

subsection \<open>Eligibility\<close>



text \<open>
  C10: a node whose outer implicit node has no parent in the selection tree is not
  eligible; when it is the common ancestor of the selection, \<^verbatim>\<open>prepare\<close> on a fresh tweak
  answers that the tweak does not apply and leaves no target. Whatever target \<^verbatim>\<open>prepare\<close>
  leaves on a fresh tweak, the outer implicit node of its expression has a parent.
\<close>

theorem root_expression_not_extractable:
  "(snd (outerImplicit N Ancestors) = [] \<longrightarrow>
      eligibleForExtraction N Ancestors \<noteq> Some True \<and>
      (parse N \<noteq> None \<longrightarrow> eligibleForExtraction N Ancestors = Some False)) \<and>
   (commonAncestor Inputs = Some (N, Ancestors) \<and> snd (outerImplicit N Ancestors) = [] \<and>
    parse N \<noteq> None \<longrightarrow>
      prepare Inputs None = Some (False, None)) \<and>
   (\<forall>Verdict T. prepare Inputs None = Some (Verdict, Some T) \<longrightarrow>
      snd (outerImplicit (ExprNode T) (ExprNodeAncestors T)) \<noteq> [])"
  using eligible_root [of N Ancestors] prepare_root [of Inputs N Ancestors]
    prepare_has_parent [of Inputs]
  by blast

theorem root_expression_not_extractable_witness:
  "snd (outerImplicit stmtSumNode []) = [] \<and> parse stmtSumNode \<noteq> None \<and>
   commonAncestor rootSelection = Some (stmtSumNode, []) \<and>
   eligibleForExtraction stmtSumNode [] = Some False \<and>
   prepare rootSelection None = Some (False, None) \<and>
   (\<exists>T. prepare scopeSelection None = Some (True, Some T) \<and>
        snd (outerImplicit (ExprNode T) (ExprNodeAncestors T)) \<noteq> [])"
proof -
  note W = root_expression_not_extractable
  have H: "snd (outerImplicit stmtSumNode []) = []" "parse stmtSumNode \<noteq> None"
    "commonAncestor rootSelection = Some (stmtSumNode, [])"
    by (simp_all add: base_defs stmt_defs root_defs scope_defs parse_def)
  from W [of stmtSumNode "[]" rootSelection] H
  have A: "eligibleForExtraction stmtSumNode [] = Some False"
    "prepare rootSelection None = Some (False, None)"
    by simp_all
  have "map_option fst (prepare scopeSelection None) = Some True \<and>
        map_option snd (prepare scopeSelection None) \<noteq> Some None"
    by (simp add: base_defs stmt_defs root_defs scope_defs prepare_def computeExtractedExpr_def eligibleForExtraction_def
        parse_def childExprIsDisallowedStmt_def get_BinaryOperator_def
        newExtractionContext_def computeInsertionPoint_def CanExtractOutside_def isaExpr_def
        computeReferencedDecls_def VisitDeclRefExpr_def computeVariableType_def)
  then obtain T where T: "prepare scopeSelection None = Some (True, Some T)"
    by (cases "prepare scopeSelection None") auto
  with W [of stmtSumNode "[]" scopeSelection]
  have "snd (outerImplicit (ExprNode T) (ExprNodeAncestors T)) \<noteq> []"
    by blast
  with H A T show ?thesis by blast
qed

subsection \<open>The edits\<close>







subsection \<open>The reference collector\<close>

text \<open>
  C6, the claim as it stands, fails: in \<^verbatim>\<open>[] { return g; }() + l()\<close> the variable
  \<^verbatim>\<open>g\<close>, which the body of the closure names, is a bare reference in the expression and
  is no call operator, and the collector does not return it; nor does it return the call
  operator of the closure type of \<^verbatim>\<open>l\<close>, which is not invoked immediately. It returns
  \<^verbatim>\<open>l\<close> alone.
\<close>

theorem closure_references_counterexample:
  "closureG \<in> set (bareReferences closureSyntax) \<and> \<not> isClosureMethod closureG \<and>
   closureG \<notin> set (computeReferencedDecls (exprSyntax 0 OtherExpr closureSyntax)) \<and>
   closureCallOpL \<in> set (bareReferences closureSyntax) \<and>
   closureCallOpL \<notin> set (computeReferencedDecls (exprSyntax 0 OtherExpr closureSyntax)) \<and>
   computeReferencedDecls (exprSyntax 0 OtherExpr closureSyntax) = [closureL]"
  by (simp add: base_defs closure_defs computeReferencedDecls_def VisitDeclRefExpr_def
      isClosureMethod_def)

text \<open>
  C6, amended: the collector returns, in the order of the walk, the bare references in the
  parts of the expression that it walks, which leave the bodies of closures out, except
  the references to a member function of a closure type, of which the call operator of an
  immediately-invoked closure is one. It is a total function: it always returns a
  sequence, which may be empty.
\<close>

theorem collector_returns_walked_references:
  "computeReferencedDecls E =
   filter (\<lambda>D. \<not> isClosureMethod D) (walkedReferences (Traversal E))"
  by (simp add: computeReferencedDecls_def TraverseStmt_append)

theorem collector_returns_walked_references_witness:
  "computeReferencedDecls (exprSyntax 0 OtherExpr closureSyntax) = [closureL] \<and>
   computeReferencedDecls (exprSyntax 0 OtherExpr (StmtT [])) = []"
  using collector_returns_walked_references [of "exprSyntax 0 OtherExpr closureSyntax"]
    collector_returns_walked_references [of "exprSyntax 0 OtherExpr (StmtT [])"]
  by (simp add: base_defs closure_defs isClosureMethod_def)

end
